theory Spec2Isabelle
  imports Main "HOL-Library.Word"
begin

unbundle bit_operations_syntax

section \<open>Machine types\<close>

type_synonym uint8_t = "8 word"
type_synonym uint16_t = "16 word"
type_synonym uint32_t = "32 word"
type_synonym uid_t = "32 word"

text \<open>
  Return codes are C \<open>int\<close>s holding 0 or a negated errno; no arithmetic on them can
  overflow here, so they are modelled as \<open>int\<close>.
\<close>

section \<open>Constants of RouteController.cpp\<close>

definition RULE_PRIORITY_PRIVILEGED_LEGACY :: uint32_t where
  "RULE_PRIORITY_PRIVILEGED_LEGACY = 11000"

definition RULE_PRIORITY_SECURE_VPN :: uint32_t where
  "RULE_PRIORITY_SECURE_VPN = 12000"

definition RULE_PRIORITY_PER_NETWORK_EXPLICIT :: uint32_t where
  "RULE_PRIORITY_PER_NETWORK_EXPLICIT = 13000"

definition RULE_PRIORITY_PER_NETWORK_INTERFACE :: uint32_t where
  "RULE_PRIORITY_PER_NETWORK_INTERFACE = 14000"

definition RULE_PRIORITY_LEGACY :: uint32_t where
  "RULE_PRIORITY_LEGACY = 16000"

definition RULE_PRIORITY_PER_NETWORK_NORMAL :: uint32_t where
  "RULE_PRIORITY_PER_NETWORK_NORMAL = 17000"

definition RULE_PRIORITY_DEFAULT_NETWORK :: uint32_t where
  "RULE_PRIORITY_DEFAULT_NETWORK = 19000"

definition RULE_PRIORITY_MAIN :: uint32_t where
  "RULE_PRIORITY_MAIN = 20000"

definition FRA_UID_START :: uint16_t where
  "FRA_UID_START = 18"

definition FRA_UID_END :: uint16_t where
  "FRA_UID_END = 19"

definition INVALID_UID :: uid_t where
  "INVALID_UID = - 1"

section \<open>Constants of the Linux and libc headers\<close>

text \<open>
  The values below are those of the Linux uapi headers (linux/netlink.h,
  linux/rtnetlink.h, linux/fib_rules.h, net/if.h, errno.h) the file is compiled against.
\<close>

definition NLM_F_REQUEST :: uint16_t where "NLM_F_REQUEST = 0x1"
definition NLM_F_ACK :: uint16_t where "NLM_F_ACK = 0x4"
definition NLM_F_EXCL :: uint16_t where "NLM_F_EXCL = 0x200"
definition NLM_F_CREATE :: uint16_t where "NLM_F_CREATE = 0x400"

definition RTM_NEWROUTE :: uint16_t where "RTM_NEWROUTE = 24"
definition RTM_DELROUTE :: uint16_t where "RTM_DELROUTE = 25"
definition RTM_NEWRULE :: uint16_t where "RTM_NEWRULE = 32"
definition RTM_DELRULE :: uint16_t where "RTM_DELRULE = 33"

definition AF_INET :: uint8_t where "AF_INET = 2"
definition AF_INET6 :: uint8_t where "AF_INET6 = 10"

definition RT_TABLE_MAIN :: uint32_t where "RT_TABLE_MAIN = 254"
definition RTPROT_STATIC :: uint8_t where "RTPROT_STATIC = 4"
definition RTN_UNICAST :: uint8_t where "RTN_UNICAST = 1"

definition FR_ACT_TO_TBL :: uint8_t where "FR_ACT_TO_TBL = 1"
definition FR_ACT_UNREACHABLE :: uint8_t where "FR_ACT_UNREACHABLE = 7"

definition FRA_PRIORITY :: uint16_t where "FRA_PRIORITY = 6"
definition FRA_FWMARK :: uint16_t where "FRA_FWMARK = 10"
definition FRA_TABLE :: uint16_t where "FRA_TABLE = 15"
definition FRA_FWMASK :: uint16_t where "FRA_FWMASK = 16"
definition FRA_OIFNAME :: uint16_t where "FRA_OIFNAME = 17"

definition RTA_DST :: uint16_t where "RTA_DST = 1"
definition RTA_OIF :: uint16_t where "RTA_OIF = 4"
definition RTA_GATEWAY :: uint16_t where "RTA_GATEWAY = 5"
definition RTA_TABLE :: uint16_t where "RTA_TABLE = 15"

definition IFNAMSIZ :: nat where "IFNAMSIZ = 16"
definition RTA_ALIGNTO :: nat where "RTA_ALIGNTO = 4"

definition EFAULT :: int where "EFAULT = 14"
definition EEXIST :: int where "EEXIST = 17"
definition ENODEV :: int where "ENODEV = 19"
definition EINVAL :: int where "EINVAL = 22"
definition ERANGE :: int where "ERANGE = 34"
definition ENAMETOOLONG :: int where "ENAMETOOLONG = 36"
definition ESRCH :: int where "ESRCH = 3"
definition EBADMSG :: int where "EBADMSG = 74"
definition EUSERS :: int where "EUSERS = 87"
definition ENOBUFS :: int where "ENOBUFS = 105"
definition EREMOTEIO :: int where "EREMOTEIO = 121"

text \<open>Sizes of the structures, in bytes.\<close>

definition sizeof_nlmsghdr :: nat where "sizeof_nlmsghdr = 16"
definition sizeof_nlmsgerr :: nat where "sizeof_nlmsgerr = 20"
definition sizeof_fib_rule_hdr :: nat where "sizeof_fib_rule_hdr = 12"
definition sizeof_rtmsg :: nat where "sizeof_rtmsg = 12"
definition sizeof_rtattr :: nat where "sizeof_rtattr = 4"
definition sizeof_uint32_t :: nat where "sizeof_uint32_t = 4"
definition sizeof_in6_addr :: nat where "sizeof_in6_addr = 16"

text \<open>The rtnetlink attribute macros, on sizes.\<close>

definition RTA_ALIGN :: "nat \<Rightarrow> nat" where
  "RTA_ALIGN len = ((len + RTA_ALIGNTO - 1) div RTA_ALIGNTO) * RTA_ALIGNTO"

definition RTA_LENGTH :: "nat \<Rightarrow> nat" where
  "RTA_LENGTH len = RTA_ALIGN sizeof_rtattr + len"

definition RTA_SPACE :: "nat \<Rightarrow> nat" where
  "RTA_SPACE len = RTA_ALIGN (RTA_LENGTH len)"

text \<open>\<open>U16_RTA_LENGTH\<close> takes and returns a \<open>uint16_t\<close>: the sum is truncated to 16 bits.\<close>

definition U16_RTA_LENGTH :: "nat \<Rightarrow> uint16_t" where
  "U16_RTA_LENGTH x = of_nat (RTA_LENGTH (x mod 2 ^ 16))"

section \<open>Wire structures\<close>

record nlmsghdr =
  nlmsg_len :: uint32_t
  nlmsg_type :: uint16_t
  nlmsg_flags :: uint16_t
  nlmsg_seq :: uint32_t
  nlmsg_pid :: uint32_t

text \<open>
  The fields of \<open>struct fib_rule_hdr\<close> carry the prefix \<open>frh_\<close> here, since
  \<open>action\<close>, \<open>table\<close> and \<open>flags\<close> are also parameter names of the functions below.
\<close>

record fib_rule_hdr =
  frh_family :: uint8_t
  frh_dst_len :: uint8_t
  frh_src_len :: uint8_t
  frh_tos :: uint8_t
  frh_table :: uint8_t
  frh_res1 :: uint8_t
  frh_res2 :: uint8_t
  frh_action :: uint8_t
  frh_flags :: uint32_t

record rtmsg =
  rtm_family :: uint8_t
  rtm_dst_len :: uint8_t
  rtm_src_len :: uint8_t
  rtm_tos :: uint8_t
  rtm_table :: uint8_t
  rtm_protocol :: uint8_t
  rtm_scope :: uint8_t
  rtm_type :: uint8_t
  rtm_flags :: uint32_t

record rtattr =
  rta_len :: uint16_t
  rta_type :: uint16_t

text \<open>
  An \<open>iovec\<close> is a pointer and a length. The model keeps what the pointer points to
  at the time of the \<open>writev\<close> (the object, not its bytes) and the length in bytes.
  \<open>CString s\<close> is a buffer holding the characters of \<open>s\<close> and the terminating NUL,
  \<open>Uninit\<close> a local variable that was never written.
\<close>

datatype payload =
    NULL
  | Nlmsghdr nlmsghdr
  | FibRuleHdr fib_rule_hdr
  | Rtmsg rtmsg
  | Rtattr rtattr
  | U32 uint32_t
  | Bytes "uint8_t list"
  | CString string
  | Uninit

record iovec =
  iov_base :: payload
  iov_len :: nat

section \<open>The outside world\<close>

text \<open>
  What one \<open>socket\<close>, \<open>connect\<close>, \<open>writev\<close>, \<open>recv\<close> sequence does: the first
  call that fails, with its errno, or the size \<open>recv\<close> returned and the value it left
  in \<open>response.err.error\<close>.
\<close>

datatype netlink_outcome =
    SocketFailed int
  | ConnectFailed int
  | WritevFailed int
  | RecvFailed int
  | Received nat int

datatype IptablesTarget = V4V6

text \<open>
  Every call that leaves the process, in the order the calls were made:
  \<open>Nametoindex name index\<close> is a call of \<open>if_nametoindex\<close> and the index it
  returned; \<open>Netlink iov ret\<close> is one run of \<open>sendNetlinkRequest\<close>, with the array it
  handed to \<open>writev\<close> and the value it returned; \<open>Iptables\<close> and \<open>ForkExecvp\<close> are
  the calls of \<open>execIptables\<close> and \<open>android_fork_execvp\<close> with their arguments and
  the value returned.
\<close>

datatype event =
    Nametoindex string uint32_t
  | Netlink "iovec list" int
  | Iptables IptablesTarget "string list" int
  | ForkExecvp "string list" int

text \<open>
  The external functions. Each may answer differently as time passes (an interface
  disappears, a route comes to exist), so each is given the calls made so far.
  \<open>parsePrefix destination\<close> returns the raw length (negative on failure), the
  family, the address buffer and the prefix length; \<open>inet_pton family nexthop\<close>
  its return value and the address buffer.
\<close>

record env =
  if_nametoindex :: "event list \<Rightarrow> string \<Rightarrow> uint32_t"
  netlink :: "event list \<Rightarrow> iovec list \<Rightarrow> netlink_outcome"
  parsePrefix :: "string \<Rightarrow> int \<times> uint8_t \<times> uint8_t list \<times> uint8_t"
  inet_pton :: "uint8_t \<Rightarrow> string \<Rightarrow> int \<times> uint8_t list"
  execIptables :: "event list \<Rightarrow> IptablesTarget \<Rightarrow> string list \<Rightarrow> int"
  android_fork_execvp :: "event list \<Rightarrow> string list \<Rightarrow> int"

text \<open>
  The process state: the file-scope map \<open>interfaceToIndex\<close> and the calls made so far.
\<close>

record world =
  interfaceToIndex :: "string \<rightharpoonup> uint32_t"
  trace :: "event list"

section \<open>Declarations of the headers that are not part of the sources\<close>

text \<open>
  RouteController.h, Fwmark.h, Permission.h and NetdConstants.h are not among the
  sources. What the code uses of them is taken as a parameter: the table offset, the
  \<open>Fwmark\<close> union (its named fields as a record, its default constructor and its
  \<open>intValue\<close> view as functions), the permission constant, and the sizes and the path
  used by the external commands.
\<close>

type_synonym Permission = nat

record Fwmark =
  netId :: uint32_t
  explicitlySelected :: bool
  protectedFromVpn :: bool
  permission :: Permission

record decls =
  ROUTE_TABLE_OFFSET_FROM_INDEX :: int
  FWMARK_NET_ID_MASK :: uint32_t
  PERMISSION_CONNECTIVITY_INTERNAL :: Permission
  Fwmark_ctor :: Fwmark
  intValue :: "Fwmark \<Rightarrow> uint32_t"
  IP_PATH :: string
  UINT32_STRLEN :: nat
  UINT32_HEX_STRLEN :: nat

definition ROUTE_TABLE_PRIVILEGED_LEGACY :: "decls \<Rightarrow> int" where
  "ROUTE_TABLE_PRIVILEGED_LEGACY d = ROUTE_TABLE_OFFSET_FROM_INDEX d - 901"

definition ROUTE_TABLE_LEGACY :: "decls \<Rightarrow> int" where
  "ROUTE_TABLE_LEGACY d = ROUTE_TABLE_OFFSET_FROM_INDEX d - 902"

definition NETLINK_REQUEST_FLAGS :: uint16_t where
  "NETLINK_REQUEST_FLAGS = NLM_F_REQUEST OR NLM_F_ACK"

definition NETLINK_CREATE_REQUEST_FLAGS :: uint16_t where
  "NETLINK_CREATE_REQUEST_FLAGS = NETLINK_REQUEST_FLAGS OR NLM_F_CREATE OR NLM_F_EXCL"

definition AF_FAMILIES :: "uint8_t list" where
  "AF_FAMILIES = [AF_INET, AF_INET6]"

definition IP_VERSIONS :: "string list" where
  "IP_VERSIONS = [''-4'', ''-6'']"

definition FRATTR_PRIORITY :: rtattr where
  "FRATTR_PRIORITY = \<lparr>rta_len = U16_RTA_LENGTH sizeof_uint32_t, rta_type = FRA_PRIORITY\<rparr>"

definition FRATTR_TABLE :: rtattr where
  "FRATTR_TABLE = \<lparr>rta_len = U16_RTA_LENGTH sizeof_uint32_t, rta_type = FRA_TABLE\<rparr>"

definition FRATTR_FWMARK :: rtattr where
  "FRATTR_FWMARK = \<lparr>rta_len = U16_RTA_LENGTH sizeof_uint32_t, rta_type = FRA_FWMARK\<rparr>"

definition FRATTR_FWMASK :: rtattr where
  "FRATTR_FWMASK = \<lparr>rta_len = U16_RTA_LENGTH sizeof_uint32_t, rta_type = FRA_FWMASK\<rparr>"

definition FRATTR_UID_START :: rtattr where
  "FRATTR_UID_START = \<lparr>rta_len = U16_RTA_LENGTH sizeof_uint32_t, rta_type = FRA_UID_START\<rparr>"

definition FRATTR_UID_END :: rtattr where
  "FRATTR_UID_END = \<lparr>rta_len = U16_RTA_LENGTH sizeof_uint32_t, rta_type = FRA_UID_END\<rparr>"

definition RTATTR_TABLE :: rtattr where
  "RTATTR_TABLE = \<lparr>rta_len = U16_RTA_LENGTH sizeof_uint32_t, rta_type = RTA_TABLE\<rparr>"

definition RTATTR_OIF :: rtattr where
  "RTATTR_OIF = \<lparr>rta_len = U16_RTA_LENGTH sizeof_uint32_t, rta_type = RTA_OIF\<rparr>"

definition PADDING_BUFFER :: "uint8_t list" where
  "PADDING_BUFFER = [0, 0, 0, 0]"

section \<open>The interface table registry\<close>

text \<open>
  \<open>getRouteTableForInterface\<close>: the index is a \<open>uint32_t\<close>, so the sum with the
  offset is taken modulo \<open>2 ^ 32\<close>.
\<close>

definition getRouteTableForInterface :: "decls \<Rightarrow> env \<Rightarrow> string \<Rightarrow> world \<Rightarrow> uint32_t \<times> world" where
  "getRouteTableForInterface d e interface w =
     (let index0 = if_nametoindex e (trace w) interface;
          w1 = w\<lparr>trace := trace w @ [Nametoindex interface index0]\<rparr>;
          (index, w2) =
            (if index0 \<noteq> 0
             then (index0, w1\<lparr>interfaceToIndex := (interfaceToIndex w1)(interface \<mapsto> index0)\<rparr>)
             else (case interfaceToIndex w1 interface of
                     Some i \<Rightarrow> (i, w1)
                   | None \<Rightarrow> (index0, w1)))
      in (if index \<noteq> 0 then index + word_of_int (ROUTE_TABLE_OFFSET_FROM_INDEX d) else 0, w2))"

section \<open>The protocol transport\<close>

text \<open>
  \<open>sendNetlinkRequest\<close>, in its two halves. First the header: slot 0 of the array
  is overwritten with the header, whose length field starts at 0 and is summed over all
  slots, slot 0 (now of the header's size) included; the field is a \<open>uint32_t\<close>. The
  array is written out with the finished header in slot 0. Every caller passes an array
  of at least one slot.
\<close>

definition netlink_datagram :: "uint16_t \<Rightarrow> uint16_t \<Rightarrow> iovec list \<Rightarrow> iovec list" where
  "netlink_datagram action flags iov =
     (let iov1 = iov[0 := \<lparr>iov_base = NULL, iov_len = sizeof_nlmsghdr\<rparr>];
          len = foldl (\<lambda>l v. l + of_nat (iov_len v)) (0 :: uint32_t) iov1;
          nlmsg = \<lparr>nlmsg_len = len, nlmsg_type = action, nlmsg_flags = flags,
                   nlmsg_seq = 0, nlmsg_pid = 0\<rparr>
      in iov1[0 := \<lparr>iov_base = Nlmsghdr nlmsg, iov_len = sizeof_nlmsghdr\<rparr>])"

text \<open>Then the exchange with the kernel, and the value returned for each way it can end.\<close>

definition netlink_ret :: "netlink_outcome \<Rightarrow> int" where
  "netlink_ret outcome =
     (case outcome of
        Received n err \<Rightarrow> if n = sizeof_nlmsghdr + sizeof_nlmsgerr then err else - EBADMSG
      | SocketFailed errno \<Rightarrow> - errno
      | ConnectFailed errno \<Rightarrow> - errno
      | WritevFailed errno \<Rightarrow> - errno
      | RecvFailed errno \<Rightarrow> - errno)"

definition sendNetlinkRequest :: "env \<Rightarrow> uint16_t \<Rightarrow> uint16_t \<Rightarrow> iovec list \<Rightarrow> world \<Rightarrow> int \<times> world" where
  "sendNetlinkRequest e action flags iov w =
     (let iov2 = netlink_datagram action flags iov;
          ret = netlink_ret (netlink e (trace w) iov2)
      in (ret, w\<lparr>trace := trace w @ [Netlink iov2 ret]\<rparr>))"

section \<open>The rule encoder\<close>

text \<open>
  The array of \<open>modifyIpRule\<close>, with \<open>rule.family\<close> as it stands when the array is
  sent: slot 1 points to \<open>rule\<close>, which the loop over the families updates.
\<close>

definition rule_iov :: "uint8_t \<Rightarrow> uint32_t \<Rightarrow> uint32_t \<Rightarrow> uint32_t \<Rightarrow> uint32_t \<Rightarrow> string option \<Rightarrow>
    uid_t \<Rightarrow> uid_t \<Rightarrow> iovec list" where
  "rule_iov fam priority table fwmark fwmask interface uidStart uidEnd =
     (let interfaceLength = (case interface of None \<Rightarrow> 0 | Some i \<Rightarrow> length i + 1);
          paddingLength = (case interface of None \<Rightarrow> 0
                           | Some i \<Rightarrow> RTA_SPACE interfaceLength - RTA_LENGTH interfaceLength);
          isUidRule = (uidStart \<noteq> INVALID_UID);
          rule = \<lparr>frh_family = fam, frh_dst_len = 0, frh_src_len = 0, frh_tos = 0,
                  frh_table = 0, frh_res1 = 0, frh_res2 = 0,
                  frh_action = (if table \<noteq> 0 then FR_ACT_TO_TBL else FR_ACT_UNREACHABLE),
                  frh_flags = 0\<rparr>;
          fraOifname = \<lparr>rta_len = U16_RTA_LENGTH interfaceLength, rta_type = FRA_OIFNAME\<rparr>
      in [\<lparr>iov_base = NULL, iov_len = 0\<rparr>,
          \<lparr>iov_base = FibRuleHdr rule, iov_len = sizeof_fib_rule_hdr\<rparr>,
          \<lparr>iov_base = Rtattr FRATTR_PRIORITY, iov_len = sizeof_rtattr\<rparr>,
          \<lparr>iov_base = U32 priority, iov_len = sizeof_uint32_t\<rparr>,
          \<lparr>iov_base = Rtattr FRATTR_TABLE, iov_len = (if table \<noteq> 0 then sizeof_rtattr else 0)\<rparr>,
          \<lparr>iov_base = U32 table, iov_len = (if table \<noteq> 0 then sizeof_uint32_t else 0)\<rparr>,
          \<lparr>iov_base = Rtattr FRATTR_FWMARK, iov_len = (if fwmask \<noteq> 0 then sizeof_rtattr else 0)\<rparr>,
          \<lparr>iov_base = U32 fwmark, iov_len = (if fwmask \<noteq> 0 then sizeof_uint32_t else 0)\<rparr>,
          \<lparr>iov_base = Rtattr FRATTR_FWMASK, iov_len = (if fwmask \<noteq> 0 then sizeof_rtattr else 0)\<rparr>,
          \<lparr>iov_base = U32 fwmask, iov_len = (if fwmask \<noteq> 0 then sizeof_uint32_t else 0)\<rparr>,
          \<lparr>iov_base = Rtattr FRATTR_UID_START, iov_len = (if isUidRule then sizeof_rtattr else 0)\<rparr>,
          \<lparr>iov_base = U32 uidStart, iov_len = (if isUidRule then sizeof_uint32_t else 0)\<rparr>,
          \<lparr>iov_base = Rtattr FRATTR_UID_END, iov_len = (if isUidRule then sizeof_rtattr else 0)\<rparr>,
          \<lparr>iov_base = U32 uidEnd, iov_len = (if isUidRule then sizeof_uint32_t else 0)\<rparr>,
          \<lparr>iov_base = Rtattr fraOifname, iov_len = (if interface \<noteq> None then sizeof_rtattr else 0)\<rparr>,
          \<lparr>iov_base = (case interface of None \<Rightarrow> Uninit | Some i \<Rightarrow> CString i),
           iov_len = interfaceLength\<rparr>,
          \<lparr>iov_base = Bytes PADDING_BUFFER, iov_len = paddingLength\<rparr>])"

text \<open>
  The loop over \<open>AF_FAMILIES\<close>: one request per family, stopping at the first that
  does not return 0.
\<close>

fun send_families :: "env \<Rightarrow> uint16_t \<Rightarrow> uint16_t \<Rightarrow> (uint8_t \<Rightarrow> iovec list) \<Rightarrow> uint8_t list \<Rightarrow>
    world \<Rightarrow> int \<times> world" where
  "send_families e action flags iov [] w = (0, w)"
| "send_families e action flags iov (fam # fams) w =
     (case sendNetlinkRequest e action flags (iov fam) w of
        (ret, w') \<Rightarrow> if ret \<noteq> 0 then (ret, w') else send_families e action flags iov fams w')"

definition modifyIpRule :: "env \<Rightarrow> uint16_t \<Rightarrow> uint32_t \<Rightarrow> uint32_t \<Rightarrow> uint32_t \<Rightarrow> uint32_t \<Rightarrow>
    string option \<Rightarrow> uid_t \<Rightarrow> uid_t \<Rightarrow> world \<Rightarrow> int \<times> world" where
  "modifyIpRule e action priority table fwmark fwmask interface uidStart uidEnd w =
     (if fwmark AND NOT fwmask \<noteq> 0 then (- ERANGE, w)
      else if (case interface of None \<Rightarrow> False | Some i \<Rightarrow> length i + 1 > IFNAMSIZ)
      then (- ENAMETOOLONG, w)
      else if (uidStart = INVALID_UID) \<noteq> (uidEnd = INVALID_UID) then (- EUSERS, w)
      else
        (let flags = (if action = RTM_NEWRULE then NETLINK_CREATE_REQUEST_FLAGS
                      else NETLINK_REQUEST_FLAGS)
         in send_families e action flags
              (\<lambda>fam. rule_iov fam priority table fwmark fwmask interface uidStart uidEnd)
              AF_FAMILIES w))"

section \<open>The route encoder\<close>

text \<open>
  The array of \<open>modifyIpRoute\<close>. \<open>ifindex\<close> is \<open>None\<close> when no interface was given
  (the local variable is then never written), \<open>rawNexthop\<close> is \<open>None\<close> when no nexthop
  was given.
\<close>

definition route_iov :: "uint32_t \<Rightarrow> uint8_t \<Rightarrow> uint8_t \<Rightarrow> nat \<Rightarrow> uint8_t list \<Rightarrow> uint32_t option \<Rightarrow>
    uint8_t list option \<Rightarrow> iovec list" where
  "route_iov table fam prefixLength rawLength rawAddress ifindex rawNexthop =
     (let route = \<lparr>rtm_family = fam, rtm_dst_len = prefixLength, rtm_src_len = 0, rtm_tos = 0,
                   rtm_table = 0, rtm_protocol = RTPROT_STATIC, rtm_scope = 0,
                   rtm_type = RTN_UNICAST, rtm_flags = 0\<rparr>;
          rtaDst = \<lparr>rta_len = U16_RTA_LENGTH rawLength, rta_type = RTA_DST\<rparr>;
          rtaGateway = \<lparr>rta_len = U16_RTA_LENGTH rawLength, rta_type = RTA_GATEWAY\<rparr>
      in [\<lparr>iov_base = NULL, iov_len = 0\<rparr>,
          \<lparr>iov_base = Rtmsg route, iov_len = sizeof_rtmsg\<rparr>,
          \<lparr>iov_base = Rtattr RTATTR_TABLE, iov_len = sizeof_rtattr\<rparr>,
          \<lparr>iov_base = U32 table, iov_len = sizeof_uint32_t\<rparr>,
          \<lparr>iov_base = Rtattr rtaDst, iov_len = sizeof_rtattr\<rparr>,
          \<lparr>iov_base = Bytes rawAddress, iov_len = rawLength\<rparr>,
          \<lparr>iov_base = Rtattr RTATTR_OIF, iov_len = (if ifindex \<noteq> None then sizeof_rtattr else 0)\<rparr>,
          \<lparr>iov_base = (case ifindex of None \<Rightarrow> Uninit | Some ix \<Rightarrow> U32 ix),
           iov_len = (if ifindex \<noteq> None then sizeof_uint32_t else 0)\<rparr>,
          \<lparr>iov_base = Rtattr rtaGateway, iov_len = (if rawNexthop \<noteq> None then sizeof_rtattr else 0)\<rparr>,
          \<lparr>iov_base = (case rawNexthop of None \<Rightarrow> Uninit | Some b \<Rightarrow> Bytes b),
           iov_len = (if rawNexthop \<noteq> None then rawLength else 0)\<rparr>])"

definition modifyIpRoute :: "env \<Rightarrow> uint16_t \<Rightarrow> uint32_t \<Rightarrow> string option \<Rightarrow> string option \<Rightarrow>
    string option \<Rightarrow> world \<Rightarrow> int \<times> world" where
  "modifyIpRoute e action table interface destination nexthop w =
     (case destination of
        None \<Rightarrow> (- EFAULT, w)
      | Some dest \<Rightarrow>
          (case parsePrefix e dest of
             (rawLength, fam, rawAddress, prefixLength) \<Rightarrow>
               if rawLength < 0 then (rawLength, w)
               else if nat rawLength > sizeof_in6_addr then (- ENOBUFS, w)
               else
                 (let (ifindex, w1) =
                        (case interface of
                           None \<Rightarrow> (None, w)
                         | Some i \<Rightarrow>
                             (let ix = if_nametoindex e (trace w) i
                              in (Some ix, w\<lparr>trace := trace w @ [Nametoindex i ix]\<rparr>)))
                  in if ifindex = Some 0 then (- ENODEV, w1)
                     else
                       (let pton = map_option (inet_pton e fam) nexthop
                        in if (case pton of None \<Rightarrow> False | Some (r, b) \<Rightarrow> r \<le> 0)
                           then (- EINVAL, w1)
                           else
                             (let flags = (if action = RTM_NEWROUTE
                                           then NETLINK_CREATE_REQUEST_FLAGS
                                           else NETLINK_REQUEST_FLAGS)
                              in sendNetlinkRequest e action flags
                                   (route_iov table fam prefixLength (nat rawLength) rawAddress
                                      ifindex (map_option snd pton))
                                   w1)))))"

section \<open>The policy orchestrator\<close>

text \<open>What \<open>snprintf\<close> prints for \<open>%u\<close> and \<open>%x\<close>, cut to the size of the buffer.\<close>

definition digit_char :: "nat \<Rightarrow> char" where
  "digit_char n = ''0123456789abcdef'' ! n"

function utoa :: "nat \<Rightarrow> nat \<Rightarrow> string" where
  "utoa base n =
     (if n < base then [digit_char n]
      else if base < 2 then []
      else utoa base (n div base) @ [digit_char (n mod base)])"
  by pat_completeness auto
termination
  by (relation "measure snd") auto

declare utoa.simps [simp del]

definition snprintf_u :: "nat \<Rightarrow> uint32_t \<Rightarrow> string" where
  "snprintf_u bufsize x = take (bufsize - 1) (utoa 10 (unat x))"

definition snprintf_0x_x :: "nat \<Rightarrow> uint32_t \<Rightarrow> string" where
  "snprintf_0x_x bufsize x = take (bufsize - 1) (''0x'' @ utoa 16 (unat x))"

text \<open>
  \<open>modifyPerNetworkRules\<close>. Its first statement passes \<open>interface\<close> to
  \<open>getRouteTableForInterface\<close>, so the interface is a string, never NULL.
\<close>

definition modifyPerNetworkRules :: "decls \<Rightarrow> env \<Rightarrow> uint32_t \<Rightarrow> string \<Rightarrow> Permission \<Rightarrow> bool \<Rightarrow> bool \<Rightarrow>
    world \<Rightarrow> int \<times> world" where
  "modifyPerNetworkRules d e netId' interface permission' add modifyIptables w =
     (case getRouteTableForInterface d e interface w of
        (table, w0) \<Rightarrow>
          if table = 0 then (- ESRCH, w0)
          else
            (let action = (if add then RTM_NEWRULE else RTM_DELRULE);
                 fwmark1 = (Fwmark_ctor d)\<lparr>permission := permission'\<rparr>;
                 mask1 = (Fwmark_ctor d)\<lparr>permission := permission'\<rparr>
             in case modifyIpRule e action RULE_PRIORITY_PER_NETWORK_INTERFACE table
                       (intValue d fwmark1) (intValue d mask1) (Some interface)
                       INVALID_UID INVALID_UID w0 of
                  (ret1, w1) \<Rightarrow>
                    if ret1 \<noteq> 0 then (ret1, w1)
                    else
                      (let fwmark2 = fwmark1\<lparr>netId := netId'\<rparr>;
                           mask2 = mask1\<lparr>netId := FWMARK_NET_ID_MASK d\<rparr>
                       in case modifyIpRule e action RULE_PRIORITY_PER_NETWORK_NORMAL table
                                 (intValue d fwmark2) (intValue d mask2) None
                                 INVALID_UID INVALID_UID w1 of
                            (ret2, w2) \<Rightarrow>
                              if ret2 \<noteq> 0 then (ret2, w2)
                              else
                                (let fwmark3 = fwmark2\<lparr>explicitlySelected := True\<rparr>;
                                     mask3 = mask2\<lparr>explicitlySelected := True\<rparr>
                                 in case modifyIpRule e action RULE_PRIORITY_PER_NETWORK_EXPLICIT
                                           table (intValue d fwmark3) (intValue d mask3) None
                                           INVALID_UID INVALID_UID w2 of
                                      (ret3, w3) \<Rightarrow>
                                        if ret3 \<noteq> 0 then (ret3, w3)
                                        else if modifyIptables then
                                          (let markString =
                                                 snprintf_0x_x (UINT32_HEX_STRLEN d) netId';
                                               args = [''-t'', ''mangle'',
                                                       if add then ''-A'' else ''-D'',
                                                       ''INPUT'', ''-i'', interface, ''-j'',
                                                       ''MARK'', ''--set-mark'', markString];
                                               r = execIptables e (trace w3) V4V6 args;
                                               w4 = w3\<lparr>trace := trace w3 @ [Iptables V4V6 args r]\<rparr>
                                           in (if r \<noteq> 0 then - EREMOTEIO else 0, w4))
                                        else (0, w3)))))"

datatype TableType = INTERFACE | LEGACY | PRIVILEGED_LEGACY

text \<open>
  \<open>modifyRoute\<close>, first its \<open>switch\<close> over the table type. With \<open>INTERFACE\<close> the
  interface is handed to \<open>getRouteTableForInterface\<close>, which dereferences it: a NULL
  interface is then undefined behaviour, the result \<open>None\<close> of the model. The constants
  \<open>ROUTE_TABLE_LEGACY\<close> and \<open>ROUTE_TABLE_PRIVILEGED_LEGACY\<close> are \<open>int\<close>s, converted
  when they are assigned to the \<open>uint32_t\<close> \<open>table\<close>.
\<close>

definition resolve_table :: "decls \<Rightarrow> env \<Rightarrow> TableType \<Rightarrow> string option \<Rightarrow> world \<Rightarrow>
    (uint32_t \<times> world) option" where
  "resolve_table d e tableType interface w =
     (case tableType of
        INTERFACE \<Rightarrow> map_option (\<lambda>i. getRouteTableForInterface d e i w) interface
      | LEGACY \<Rightarrow> Some (word_of_int (ROUTE_TABLE_LEGACY d), w)
      | PRIVILEGED_LEGACY \<Rightarrow> Some (word_of_int (ROUTE_TABLE_PRIVILEGED_LEGACY d), w))"

definition modifyRoute :: "decls \<Rightarrow> env \<Rightarrow> string option \<Rightarrow> string option \<Rightarrow> string option \<Rightarrow>
    uint16_t \<Rightarrow> TableType \<Rightarrow> uid_t \<Rightarrow> world \<Rightarrow> (int \<times> world) option" where
  "modifyRoute d e interface destination nexthop action tableType uid w =
     (case resolve_table d e tableType interface w of
        None \<Rightarrow> None
      | Some (table, w0) \<Rightarrow>
          Some
            (if table = 0 then (- ESRCH, w0)
             else
               (case modifyIpRoute e action table interface destination nexthop w0 of
                  (ret, w1) \<Rightarrow>
                    if ret \<noteq> 0 \<and>
                       \<not> (action = RTM_NEWROUTE \<and> ret = - EEXIST \<and>
                          (tableType = LEGACY \<or> tableType = PRIVILEGED_LEGACY))
                    then (ret, w1)
                    else if nexthop = None then
                      (case modifyIpRoute e action RT_TABLE_MAIN interface destination None w1 of
                         (ret2, w2) \<Rightarrow>
                           if ret2 \<noteq> 0 \<and> \<not> (action = RTM_NEWROUTE \<and> ret2 = - EEXIST)
                           then (ret2, w2)
                           else (0, w2))
                    else (0, w1))))"

text \<open>
  The array \<open>argv\<close> of \<open>flushRoutes\<close>. It has five elements: the source writes
  \<open>"route" "flush"\<close> with no comma between the two literals, which the compiler joins
  into one string.
\<close>

definition flush_argv :: "decls \<Rightarrow> string \<Rightarrow> string \<Rightarrow> string list" where
  "flush_argv d version tableString =
     [IP_PATH d, version, ''routeflush'', ''table'', tableString]"

text \<open>The loop of \<open>flushRoutes\<close> over \<open>IP_VERSIONS\<close>.\<close>

fun flush_versions :: "decls \<Rightarrow> env \<Rightarrow> string \<Rightarrow> string list \<Rightarrow> world \<Rightarrow> int \<times> world" where
  "flush_versions d e tableString [] w = (0, w)"
| "flush_versions d e tableString (v # vs) w =
     (let argv = flush_argv d v tableString;
          r = android_fork_execvp e (trace w) argv;
          w' = w\<lparr>trace := trace w @ [ForkExecvp argv r]\<rparr>
      in if r \<noteq> 0 then (- EREMOTEIO, w') else flush_versions d e tableString vs w')"

definition flushRoutes :: "decls \<Rightarrow> env \<Rightarrow> string \<Rightarrow> world \<Rightarrow> int \<times> world" where
  "flushRoutes d e interface w =
     (case getRouteTableForInterface d e interface w of
        (table, w0) \<Rightarrow>
          if table = 0 then (- ESRCH, w0)
          else
            (let w1 = w0\<lparr>interfaceToIndex := (interfaceToIndex w0)(interface := None)\<rparr>;
                 tableString = snprintf_u (UINT32_STRLEN d) table
             in flush_versions d e tableString IP_VERSIONS w1))"

section \<open>The public control surface\<close>

definition Init :: "decls \<Rightarrow> env \<Rightarrow> world \<Rightarrow> int \<times> world" where
  "Init d e w =
     (let fwmark1 = (Fwmark_ctor d)\<lparr>netId := 0\<rparr>;
          mask1 = (Fwmark_ctor d)\<lparr>netId := FWMARK_NET_ID_MASK d\<rparr>
      in case modifyIpRule e RTM_NEWRULE RULE_PRIORITY_MAIN RT_TABLE_MAIN
                (intValue d fwmark1) (intValue d mask1) None INVALID_UID INVALID_UID w of
           (ret1, w1) \<Rightarrow>
             if ret1 \<noteq> 0 then (ret1, w1)
             else
               (let fwmark2 = fwmark1\<lparr>netId := 0, explicitlySelected := False\<rparr>;
                    mask2 = mask1\<lparr>netId := 0, explicitlySelected := True\<rparr>
                in case modifyIpRule e RTM_NEWRULE RULE_PRIORITY_LEGACY
                          (word_of_int (ROUTE_TABLE_LEGACY d))
                          (intValue d fwmark2) (intValue d mask2) None
                          INVALID_UID INVALID_UID w1 of
                     (ret2, w2) \<Rightarrow>
                       if ret2 \<noteq> 0 then (ret2, w2)
                       else
                         (let fwmark3 = fwmark2\<lparr>permission := PERMISSION_CONNECTIVITY_INTERNAL d\<rparr>;
                              mask3 = mask2\<lparr>permission := PERMISSION_CONNECTIVITY_INTERNAL d\<rparr>
                          in case modifyIpRule e RTM_NEWRULE RULE_PRIORITY_PRIVILEGED_LEGACY
                                    (word_of_int (ROUTE_TABLE_PRIVILEGED_LEGACY d))
                                    (intValue d fwmark3) (intValue d mask3) None
                                    INVALID_UID INVALID_UID w2 of
                               (ret3, w3) \<Rightarrow>
                                 if ret3 \<noteq> 0 then (ret3, w3) else (0, w3))))"

definition modifyNetworkPermission :: "decls \<Rightarrow> env \<Rightarrow> uint32_t \<Rightarrow> string \<Rightarrow> Permission \<Rightarrow> Permission \<Rightarrow>
    world \<Rightarrow> int \<times> world" where
  "modifyNetworkPermission d e netId' interface oldPermission newPermission w =
     (case modifyPerNetworkRules d e netId' interface newPermission True False w of
        (ret, w1) \<Rightarrow>
          if ret \<noteq> 0 then (ret, w1)
          else modifyPerNetworkRules d e netId' interface oldPermission False False w1)"

definition addRoute :: "decls \<Rightarrow> env \<Rightarrow> string option \<Rightarrow> string option \<Rightarrow> string option \<Rightarrow>
    TableType \<Rightarrow> uid_t \<Rightarrow> world \<Rightarrow> (int \<times> world) option" where
  "addRoute d e interface destination nexthop tableType uid w =
     modifyRoute d e interface destination nexthop RTM_NEWROUTE tableType uid w"

definition removeRoute :: "decls \<Rightarrow> env \<Rightarrow> string option \<Rightarrow> string option \<Rightarrow> string option \<Rightarrow>
    TableType \<Rightarrow> uid_t \<Rightarrow> world \<Rightarrow> (int \<times> world) option" where
  "removeRoute d e interface destination nexthop tableType uid w =
     modifyRoute d e interface destination nexthop RTM_DELROUTE tableType uid w"

section \<open>Observing requests\<close>

text \<open>
  \<open>with_family fam iov\<close> is the array \<open>iov\<close> with the family of its rule header set
  to \<open>fam\<close> and nothing else changed.
\<close>

definition with_family :: "uint8_t \<Rightarrow> iovec list \<Rightarrow> iovec list" where
  "with_family fam iov =
     map (\<lambda>v. case iov_base v of
                 FibRuleHdr r \<Rightarrow> v\<lparr>iov_base := FibRuleHdr (r\<lparr>frh_family := fam\<rparr>)\<rparr>
               | _ \<Rightarrow> v) iov"

text \<open>The type of a request, read from its header.\<close>

definition request_type :: "iovec list \<Rightarrow> uint16_t option" where
  "request_type iov =
     (case iov of
        [] \<Rightarrow> None
      | v # segs \<Rightarrow> (case iov_base v of Nlmsghdr h \<Rightarrow> Some (nlmsg_type h) | _ \<Rightarrow> None))"

text \<open>The values the netlink requests of a trace returned, in order.\<close>

definition netlink_results :: "event list \<Rightarrow> int list" where
  "netlink_results evs = concat (map (\<lambda>ev. case ev of Netlink m r \<Rightarrow> [r] | _ \<Rightarrow> []) evs)"

text \<open>The netlink requests of a trace, in order.\<close>

definition netlink_requests :: "event list \<Rightarrow> iovec list list" where
  "netlink_requests evs = concat (map (\<lambda>ev. case ev of Netlink m r \<Rightarrow> [m] | _ \<Rightarrow> []) evs)"

subsection \<open>Reading a request back\<close>

text \<open>
  What the kernel receives of an array is its segments of non-zero length, one after
  the other: \<open>wire\<close>. After the netlink header and the header of the family come the
  attributes: an attribute header and, when its length field exceeds the size of the
  attribute header itself, the payload in the segment that follows. \<open>decode_rule\<close>
  and \<open>decode_route\<close> read a datagram in this way. They look at the segments only,
  not at the functions that filled them.
\<close>

definition wire :: "iovec list \<Rightarrow> iovec list" where
  "wire iov = filter (\<lambda>v. iov_len v \<noteq> 0) iov"

fun attrs_of :: "iovec list \<Rightarrow> (rtattr \<times> iovec option) list" where
  "attrs_of [] = []"
| "attrs_of [v] = (case iov_base v of Rtattr a \<Rightarrow> [(a, None)] | _ \<Rightarrow> [])"
| "attrs_of (v # x # xs) =
     (case iov_base v of
        Rtattr a \<Rightarrow>
          if unat (rta_len a) \<le> sizeof_rtattr then (a, None) # attrs_of (x # xs)
          else (a, Some x) # attrs_of xs
      | _ \<Rightarrow> attrs_of (x # xs))"

record rule_request =
  rq_type :: uint16_t
  rq_flags :: uint16_t
  rq_family :: uint8_t
  rq_action :: uint8_t
  rq_attrs :: "(rtattr \<times> iovec option) list"

definition decode_rule :: "iovec list \<Rightarrow> rule_request option" where
  "decode_rule iov =
     (case wire iov of
        h # r # attrs \<Rightarrow>
          (case (iov_base h, iov_base r) of
             (Nlmsghdr nh, FibRuleHdr rh) \<Rightarrow>
               Some \<lparr>rq_type = nlmsg_type nh, rq_flags = nlmsg_flags nh,
                     rq_family = frh_family rh, rq_action = frh_action rh,
                     rq_attrs = attrs_of attrs\<rparr>
           | _ \<Rightarrow> None)
      | _ \<Rightarrow> None)"



subsection \<open>The requests the specification describes\<close>

text \<open>
  An attribute with a 32-bit payload, and one with \<open>n\<close> raw bytes.
\<close>

definition u32_attr :: "uint16_t \<Rightarrow> uint32_t \<Rightarrow> rtattr \<times> iovec option" where
  "u32_attr ty x = (\<lparr>rta_len = 8, rta_type = ty\<rparr>, Some \<lparr>iov_base = U32 x, iov_len = 4\<rparr>)"


text \<open>
  A rule request as the specification describes it: the action, the flags (create and
  exclusive for an addition), the family, the rule action (to a table, or unreachable
  when the table is 0), and the attributes in their order: priority; table unless it
  is 0; mark and mask unless the mask is 0; the UID range if one is given; the outgoing
  interface with its terminator if one is given.
\<close>

definition rule_attrs :: "uint32_t \<Rightarrow> uint32_t \<Rightarrow> uint32_t \<Rightarrow> uint32_t \<Rightarrow> string option \<Rightarrow> uid_t \<Rightarrow> uid_t \<Rightarrow>
    (rtattr \<times> iovec option) list" where
  "rule_attrs priority table fwmark fwmask interface uidStart uidEnd =
     [u32_attr FRA_PRIORITY priority]
     @ (if table \<noteq> 0 then [u32_attr FRA_TABLE table] else [])
     @ (if fwmask \<noteq> 0 then [u32_attr FRA_FWMARK fwmark, u32_attr FRA_FWMASK fwmask] else [])
     @ (if uidStart \<noteq> INVALID_UID
        then [u32_attr FRA_UID_START uidStart, u32_attr FRA_UID_END uidEnd] else [])
     @ (case interface of
          None \<Rightarrow> []
        | Some i \<Rightarrow> [(\<lparr>rta_len = of_nat (4 + (length i + 1)), rta_type = FRA_OIFNAME\<rparr>,
                      Some \<lparr>iov_base = CString i, iov_len = length i + 1\<rparr>)])"

definition rule_view :: "uint16_t \<Rightarrow> uint8_t \<Rightarrow> uint32_t \<Rightarrow> uint32_t \<Rightarrow> uint32_t \<Rightarrow> uint32_t \<Rightarrow>
    string option \<Rightarrow> uid_t \<Rightarrow> uid_t \<Rightarrow> rule_request" where
  "rule_view action fam priority table fwmark fwmask interface uidStart uidEnd =
     \<lparr>rq_type = action,
      rq_flags = (if action = RTM_NEWRULE then 0x605 else 0x5),
      rq_family = fam,
      rq_action = (if table \<noteq> 0 then FR_ACT_TO_TBL else FR_ACT_UNREACHABLE),
      rq_attrs = rule_attrs priority table fwmark fwmask interface uidStart uidEnd\<rparr>"



subsection \<open>Sequences of steps\<close>

text \<open>
  A sequence of steps run one after the other. \<open>Refuse err c\<close> stops with \<open>err\<close>
  when the condition \<open>c\<close> holds and touches nothing; \<open>Send m\<close> sends the datagram
  \<open>m\<close>, records the request with its result, and stops with the result when it is not
  0. Nothing is ever undone. \<open>sends\<close> lists the datagrams of a sequence.
\<close>

datatype step = Refuse int bool | Send "iovec list"

fun run_steps :: "env \<Rightarrow> step list \<Rightarrow> world \<Rightarrow> int \<times> world" where
  "run_steps e [] w = (0, w)"
| "run_steps e (Refuse err refused # steps) w =
     (if refused then (err, w) else run_steps e steps w)"
| "run_steps e (Send m # steps) w =
     (let r = netlink_ret (netlink e (trace w) m);
          w' = w\<lparr>trace := trace w @ [Netlink m r]\<rparr>
      in if r \<noteq> 0 then (r, w') else run_steps e steps w')"

fun sends :: "step list \<Rightarrow> iovec list list" where
  "sends [] = []"
| "sends (Refuse err refused # steps) = sends steps"
| "sends (Send m # steps) = m # sends steps"

text \<open>
  The steps of one rule with no UID range: the two validations, then the request for
  \<open>AF_INET\<close>, then the request for \<open>AF_INET6\<close>.
\<close>

definition rule_steps :: "uint16_t \<Rightarrow> uint32_t \<Rightarrow> uint32_t \<Rightarrow> uint32_t \<Rightarrow> uint32_t \<Rightarrow> string option \<Rightarrow>
    step list" where
  "rule_steps action priority table fwmark fwmask interface =
     [Refuse (- ERANGE) (fwmark AND NOT fwmask \<noteq> 0),
      Refuse (- ENAMETOOLONG) (case interface of None \<Rightarrow> False | Some i \<Rightarrow> IFNAMSIZ < length i + 1),
      Send (netlink_datagram action
              (if action = RTM_NEWRULE then NETLINK_CREATE_REQUEST_FLAGS else NETLINK_REQUEST_FLAGS)
              (rule_iov AF_INET priority table fwmark fwmask interface INVALID_UID INVALID_UID)),
      Send (netlink_datagram action
              (if action = RTM_NEWRULE then NETLINK_CREATE_REQUEST_FLAGS else NETLINK_REQUEST_FLAGS)
              (rule_iov AF_INET6 priority table fwmark fwmask interface INVALID_UID INVALID_UID))]"

text \<open>
  The three per-network rules in the words of the specification: priority, the fields
  of the mark and of the mask, and the outgoing interface matched (only by the first).
\<close>

definition per_network_rules :: "decls \<Rightarrow> uint32_t \<Rightarrow> string \<Rightarrow> Permission \<Rightarrow>
    (uint32_t \<times> Fwmark \<times> Fwmark \<times> string option) list" where
  "per_network_rules d netId' interface permission' =
     [(14000,
       (Fwmark_ctor d)\<lparr>permission := permission'\<rparr>,
       (Fwmark_ctor d)\<lparr>permission := permission'\<rparr>,
       Some interface),
      (17000,
       (Fwmark_ctor d)\<lparr>permission := permission', netId := netId'\<rparr>,
       (Fwmark_ctor d)\<lparr>permission := permission', netId := FWMARK_NET_ID_MASK d\<rparr>,
       None),
      (13000,
       (Fwmark_ctor d)\<lparr>permission := permission', netId := netId', explicitlySelected := True\<rparr>,
       (Fwmark_ctor d)\<lparr>permission := permission', netId := FWMARK_NET_ID_MASK d,
                        explicitlySelected := True\<rparr>,
       None)]"

text \<open>
  The steps of the three per-network rules, and the six requests the specification
  expects of them.
\<close>

definition per_network_steps :: "decls \<Rightarrow> uint16_t \<Rightarrow> uint32_t \<Rightarrow> uint32_t \<Rightarrow> string \<Rightarrow> Permission \<Rightarrow>
    step list" where
  "per_network_steps d action table netId' interface permission' =
     rule_steps action 14000 table
       (intValue d ((Fwmark_ctor d)\<lparr>permission := permission'\<rparr>))
       (intValue d ((Fwmark_ctor d)\<lparr>permission := permission'\<rparr>))
       (Some interface)
     @ rule_steps action 17000 table
         (intValue d ((Fwmark_ctor d)\<lparr>permission := permission', netId := netId'\<rparr>))
         (intValue d ((Fwmark_ctor d)\<lparr>permission := permission', netId := FWMARK_NET_ID_MASK d\<rparr>))
         None
     @ rule_steps action 13000 table
         (intValue d ((Fwmark_ctor d)\<lparr>permission := permission', netId := netId',
                                        explicitlySelected := True\<rparr>))
         (intValue d ((Fwmark_ctor d)\<lparr>permission := permission', netId := FWMARK_NET_ID_MASK d,
                                        explicitlySelected := True\<rparr>))
         None"

definition per_network_views :: "decls \<Rightarrow> uint16_t \<Rightarrow> uint32_t \<Rightarrow> uint32_t \<Rightarrow> string \<Rightarrow> Permission \<Rightarrow>
    rule_request list" where
  "per_network_views d action table netId' interface permission' =
     concat (map (\<lambda>(priority, fwmark, fwmask, oif).
                    [rule_view action AF_INET priority table (intValue d fwmark) (intValue d fwmask)
                       oif INVALID_UID INVALID_UID,
                     rule_view action AF_INET6 priority table (intValue d fwmark) (intValue d fwmask)
                       oif INVALID_UID INVALID_UID])
                 (per_network_rules d netId' interface permission'))"

subsection \<open>The rules the kernel holds\<close>

text \<open>
  The rules installed after a trace, as far as the requests tell. A request carries a
  rule: all that follows its netlink header. An acknowledged \<open>RTM_NEWRULE\<close> installs
  the rule it carries, an acknowledged \<open>RTM_DELRULE\<close> removes the rule it carries,
  and every other event leaves the rules as they are.
\<close>

definition carried_rule :: "iovec list \<Rightarrow> iovec list" where
  "carried_rule m = tl (wire m)"

definition kernel_step :: "iovec list set \<Rightarrow> event \<Rightarrow> iovec list set" where
  "kernel_step rules ev =
     (case ev of
        Netlink m r \<Rightarrow>
          if r = 0 \<and> request_type m = Some RTM_NEWRULE then insert (carried_rule m) rules
          else if r = 0 \<and> request_type m = Some RTM_DELRULE then rules - {carried_rule m}
          else rules
      | _ \<Rightarrow> rules)"

definition kernel_rules :: "event list \<Rightarrow> iovec list set" where
  "kernel_rules evs = foldl kernel_step {} evs"

section \<open>A sample configuration\<close>

text \<open>
  One instance of the parameters, used to run the model on concrete inputs: a
  \<open>Fwmark\<close> laid out as a bit field (network id in bits 0 to 15, the two flags in
  bits 16 and 17, the permission in bits 18 and 19), an offset of 1000, and a system
  whose only interface is \<open>wlan0\<close>, with index 5, and whose kernel acknowledges every
  request.
\<close>

definition bitfield_intValue :: "Fwmark \<Rightarrow> uint32_t" where
  "bitfield_intValue f =
     (netId f AND 0xffff) OR (if explicitlySelected f then 0x10000 else 0) OR
     (if protectedFromVpn f then 0x20000 else 0) OR push_bit 18 (of_nat (permission f) AND 3)"

definition decls0 :: decls where
  "decls0 = \<lparr>ROUTE_TABLE_OFFSET_FROM_INDEX = 1000, FWMARK_NET_ID_MASK = 0xffff,
     PERMISSION_CONNECTIVITY_INTERNAL = 2,
     Fwmark_ctor = \<lparr>netId = 0, explicitlySelected = False, protectedFromVpn = False,
                     permission = 0\<rparr>,
     intValue = bitfield_intValue, IP_PATH = ''/system/bin/ip'', UINT32_STRLEN = 11,
     UINT32_HEX_STRLEN = 11\<rparr>"

definition env0 :: env where
  "env0 = \<lparr>if_nametoindex = (\<lambda>h n. if n = ''wlan0'' then 5 else 0),
     netlink = (\<lambda>h iov. Received 36 0),
     parsePrefix = (\<lambda>s. if s = ''10.0.0.0/24'' then (4, AF_INET, [10, 0, 0, 0], 24)
                         else (- EINVAL, 0, [], 0)),
     inet_pton = (\<lambda>f s. if s = ''10.0.0.1'' then (1, [10, 0, 0, 1]) else (0, [])),
     execIptables = (\<lambda>h t a. 0),
     android_fork_execvp = (\<lambda>h a. 0)\<rparr>"

definition world0 :: world where
  "world0 = \<lparr>interfaceToIndex = Map.empty, trace = []\<rparr>"

text \<open>The same system once \<open>wlan0\<close> is gone: no name resolves.\<close>

definition env_gone :: env where
  "env_gone = env0\<lparr>if_nametoindex := (\<lambda>h n. 0)\<rparr>"

text \<open>A kernel that rejects the first request it is sent with \<open>EEXIST\<close>.\<close>

definition env_first_exists :: env where
  "env_first_exists = env0\<lparr>netlink := (\<lambda>h iov. if h = [] then Received 36 (- EEXIST)
                                                else Received 36 0)\<rparr>"

text \<open>A kernel that refuses every deletion of a rule (errno 2, \<open>ENOENT\<close>).\<close>

definition env_delete_fails :: env where
  "env_delete_fails = env0\<lparr>netlink := (\<lambda>h iov. if request_type iov = Some RTM_DELRULE
                                                  then Received 36 (- 2) else Received 36 0)\<rparr>"

text \<open>
  A kernel that acknowledges two deletions of a rule and refuses the third (errno 2).
\<close>

definition env_third_delete_fails :: env where
  "env_third_delete_fails =
     env0\<lparr>netlink := (\<lambda>h iov.
        if request_type iov = Some RTM_DELRULE
           \<and> length (filter (\<lambda>m. request_type m = Some RTM_DELRULE) (netlink_requests h)) = 2
        then Received 36 (- 2) else Received 36 0)\<rparr>"

text \<open>
  A kernel that keeps what it acknowledged: a request it has acknowledged before is
  answered \<open>EEXIST\<close>.
\<close>

definition env_exclusive :: env where
  "env_exclusive = env0\<lparr>netlink := (\<lambda>h iov. if Netlink iov 0 \<in> set h then Received 36 (- EEXIST)
                                              else Received 36 0)\<rparr>"

text \<open>
  \<open>wlan0\<close> is gone and the external flush command fails; the map still holds the index
  of \<open>wlan0\<close>.
\<close>

definition env_flush_fails :: env where
  "env_flush_fails = env_gone\<lparr>android_fork_execvp := (\<lambda>h a. 1)\<rparr>"

definition world_cached :: world where
  "world_cached = \<lparr>interfaceToIndex = [''wlan0'' \<mapsto> 5], trace = []\<rparr>"

section \<open>The transport's header\<close>

lemma foldl_add_len:
  "foldl (\<lambda>l v. l + of_nat (iov_len v)) (a :: uint32_t) xs = a + of_nat (sum_list (map iov_len xs))"
  by (induction xs arbitrary: a) (simp_all add: add.assoc)

lemma netlink_datagram_Cons:
  "netlink_datagram action flags (v # segs) =
     \<lparr>iov_base = Nlmsghdr \<lparr>nlmsg_len = of_nat (sizeof_nlmsghdr + sum_list (map iov_len segs)),
                              nlmsg_type = action, nlmsg_flags = flags,
                              nlmsg_seq = 0, nlmsg_pid = 0\<rparr>,
      iov_len = sizeof_nlmsghdr\<rparr> # segs"
  by (simp add: netlink_datagram_def Let_def foldl_add_len)

text \<open>
  C9, as the code has it. The caller passes slot 0 (whose content is overwritten) and
  the segments. The datagram sent is the header followed by the segments unmodified, and
  the header's length field is the size of the header itself plus the sum of the
  segments' lengths, modulo \<open>2 ^ 32\<close>: the length of the whole datagram, not of the
  segments alone.
\<close>

theorem sendNetlinkRequest_header_length:
  "sendNetlinkRequest e action flags (v # segs) w =
     (let hdr = \<lparr>nlmsg_len = of_nat (sizeof_nlmsghdr + sum_list (map iov_len segs)),
                 nlmsg_type = action, nlmsg_flags = flags, nlmsg_seq = 0, nlmsg_pid = 0\<rparr>;
          datagram = \<lparr>iov_base = Nlmsghdr hdr, iov_len = sizeof_nlmsghdr\<rparr> # segs;
          ret = netlink_ret (netlink e (trace w) datagram)
      in (ret, w\<lparr>trace := trace w @ [Netlink datagram ret]\<rparr>))"
  by (simp add: sendNetlinkRequest_def netlink_datagram_Cons Let_def)

text \<open>
  C9 as stated fails: for a caller's array of an empty slot 0 and one segment of 4
  bytes, the segments passed add up to 4 bytes, and the header sent says 20.
\<close>

theorem sendNetlinkRequest_header_length_counterexample:
  "sendNetlinkRequest env0 RTM_NEWRULE NETLINK_REQUEST_FLAGS
     [\<lparr>iov_base = NULL, iov_len = 0\<rparr>, \<lparr>iov_base = U32 7, iov_len = 4\<rparr>] world0
   = (0, \<lparr>interfaceToIndex = Map.empty,
          trace = [Netlink [\<lparr>iov_base = Nlmsghdr \<lparr>nlmsg_len = 20, nlmsg_type = RTM_NEWRULE,
                                   nlmsg_flags = NETLINK_REQUEST_FLAGS, nlmsg_seq = 0,
                                   nlmsg_pid = 0\<rparr>,
                             iov_len = 16\<rparr>,
                            \<lparr>iov_base = U32 7, iov_len = 4\<rparr>] 0]\<rparr>)
   \<and> sum_list (map iov_len [\<lparr>iov_base = NULL, iov_len = 0\<rparr>, \<lparr>iov_base = U32 7, iov_len = 4\<rparr>]) = 4
   \<and> (20 :: uint32_t) \<noteq> 4"
  by (simp add: sendNetlinkRequest_def netlink_datagram_def netlink_ret_def env0_def world0_def
      sizeof_nlmsghdr_def sizeof_nlmsgerr_def)

section \<open>Validation of the mark against the mask\<close>

text \<open>
  C2. When the mark has a bit set that the mask does not select, \<open>modifyIpRule\<close>
  returns \<open>-ERANGE\<close>, an error, and leaves the process state as it was: the list of
  calls made is unchanged, so no request was sent to the kernel.
\<close>

theorem modifyIpRule_mark_outside_mask:
  "fwmark AND NOT fwmask \<noteq> 0 \<Longrightarrow>
   modifyIpRule e action priority table fwmark fwmask interface uidStart uidEnd w = (- ERANGE, w)
   \<and> - ERANGE \<noteq> (0 :: int)"
  by (simp add: modifyIpRule_def ERANGE_def)

theorem modifyIpRule_mark_outside_mask_witness:
  "(1 :: uint32_t) AND NOT 0 \<noteq> 0 \<and>
   modifyIpRule env0 RTM_NEWRULE RULE_PRIORITY_PER_NETWORK_NORMAL 1005 1 0 None
     INVALID_UID INVALID_UID world0 = (- 34, world0)"
  using modifyIpRule_mark_outside_mask [of 1 0 env0 RTM_NEWRULE RULE_PRIORITY_PER_NETWORK_NORMAL
      1005 None INVALID_UID INVALID_UID world0]
  by (simp add: ERANGE_def)

section \<open>Reading back what the encoders wrote\<close>

lemma six_Suc: "Suc (Suc (Suc (Suc (Suc (Suc 0))))) = 6"
  by simp

lemma unat_oif_len:
  assumes "n \<le> IFNAMSIZ"
  shows "unat (U16_RTA_LENGTH n) = 4 + n" and "U16_RTA_LENGTH n = of_nat (4 + n)"
proof -
  have n: "n \<le> 16" using assms by (simp add: IFNAMSIZ_def)
  then have m: "n mod 65536 = n" by simp
  show "U16_RTA_LENGTH n = of_nat (4 + n)"
    by (simp add: U16_RTA_LENGTH_def RTA_LENGTH_def RTA_ALIGN_def RTA_ALIGNTO_def
        sizeof_rtattr_def m)
  moreover have "unat (of_nat (4 + n) :: uint16_t) = (4 + n) mod 2 ^ LENGTH(16)"
    by (rule unat_of_nat)
  ultimately show "unat (U16_RTA_LENGTH n) = 4 + n" using n by simp
qed

lemma decode_rule_datagram:
  assumes "case interface of None \<Rightarrow> True | Some i \<Rightarrow> length i + 1 \<le> IFNAMSIZ"
      and "(uidStart = INVALID_UID) = (uidEnd = INVALID_UID)"
      and "flags = (if action = RTM_NEWRULE then NETLINK_CREATE_REQUEST_FLAGS
                    else NETLINK_REQUEST_FLAGS)"
  shows "decode_rule (netlink_datagram action flags
            (rule_iov fam priority table fwmark fwmask interface uidStart uidEnd))
         = Some (rule_view action fam priority table fwmark fwmask interface uidStart uidEnd)"
proof (cases interface)
  case None
  then show ?thesis
    using assms(2,3)
    by (simp add: decode_rule_def wire_def netlink_datagram_Cons rule_iov_def Let_def
        rule_view_def rule_attrs_def u32_attr_def
        sizeof_nlmsghdr_def sizeof_fib_rule_hdr_def sizeof_rtattr_def sizeof_uint32_t_def
        FRATTR_PRIORITY_def FRATTR_TABLE_def FRATTR_FWMARK_def FRATTR_FWMASK_def
        FRATTR_UID_START_def FRATTR_UID_END_def U16_RTA_LENGTH_def RTA_LENGTH_def RTA_ALIGN_def
        RTA_ALIGNTO_def NETLINK_CREATE_REQUEST_FLAGS_def NETLINK_REQUEST_FLAGS_def
        NLM_F_REQUEST_def NLM_F_ACK_def NLM_F_CREATE_def NLM_F_EXCL_def)
next
  case (Some i)
  then have len: "length i + 1 \<le> IFNAMSIZ" using assms(1) by simp
  note oif = unat_oif_len [OF len]
  have u32: "U16_RTA_LENGTH 4 = 8"
    by (simp add: U16_RTA_LENGTH_def RTA_LENGTH_def RTA_ALIGN_def RTA_ALIGNTO_def sizeof_rtattr_def)
  show ?thesis
    using assms(2,3) Some oif
    by (simp add: decode_rule_def wire_def netlink_datagram_Cons rule_iov_def Let_def
        rule_view_def rule_attrs_def u32_attr_def u32
        sizeof_nlmsghdr_def sizeof_fib_rule_hdr_def sizeof_rtattr_def sizeof_uint32_t_def
        FRATTR_PRIORITY_def FRATTR_TABLE_def FRATTR_FWMARK_def FRATTR_FWMASK_def
        FRATTR_UID_START_def FRATTR_UID_END_def
        NETLINK_CREATE_REQUEST_FLAGS_def NETLINK_REQUEST_FLAGS_def
        NLM_F_REQUEST_def NLM_F_ACK_def NLM_F_CREATE_def NLM_F_EXCL_def)
qed



section \<open>One request per family\<close>

lemma rule_iov_with_family:
  "with_family fam' (netlink_datagram action flags (rule_iov fam p t f m i us ue))
     = netlink_datagram action flags (rule_iov fam' p t f m i us ue)"
  by (simp add: rule_iov_def Let_def netlink_datagram_Cons with_family_def split: option.splits)

lemma modifyIpRule_valid:
  assumes "fwmark AND NOT fwmask = 0"
      and "case interface of None \<Rightarrow> True | Some i \<Rightarrow> length i + 1 \<le> IFNAMSIZ"
      and "(uidStart = INVALID_UID) = (uidEnd = INVALID_UID)"
  shows "modifyIpRule e action priority table fwmark fwmask interface uidStart uidEnd w =
     (let flags = (if action = RTM_NEWRULE then NETLINK_CREATE_REQUEST_FLAGS
                   else NETLINK_REQUEST_FLAGS);
          m = (\<lambda>fam. netlink_datagram action flags
                 (rule_iov fam priority table fwmark fwmask interface uidStart uidEnd));
          r4 = netlink_ret (netlink e (trace w) (m AF_INET));
          w4 = w\<lparr>trace := trace w @ [Netlink (m AF_INET) r4]\<rparr>;
          r6 = netlink_ret (netlink e (trace w4) (m AF_INET6));
          w6 = w4\<lparr>trace := trace w4 @ [Netlink (m AF_INET6) r6]\<rparr>
      in if r4 \<noteq> 0 then (r4, w4) else (r6, w6))"
  using assms
  by (cases interface)
     (simp_all add: modifyIpRule_def AF_FAMILIES_def sendNetlinkRequest_def Let_def not_less)

text \<open>
  C3. An input is valid when the mask covers the mark, the interface name (if any) fits
  \<open>IFNAMSIZ\<close> with its terminator, and the two UIDs are both given or both absent.
  Then \<open>modifyIpRule\<close> sends the request for \<open>AF_INET\<close>; if that returns an error,
  it returns the error and nothing else was sent; otherwise it sends the request for
  \<open>AF_INET6\<close> and returns its result. The result is 0 exactly when both requests
  returned 0. Read back, the first datagram is the rule request the specification
  describes for \<open>AF_INET\<close> and the second the one for \<open>AF_INET6\<close>: the same
  action, flags, rule action and attributes, and they differ in nothing but the family.
\<close>

theorem modifyIpRule_both_families:
  assumes "fwmark AND NOT fwmask = 0"
      and "case interface of None \<Rightarrow> True | Some i \<Rightarrow> length i + 1 \<le> IFNAMSIZ"
      and "(uidStart = INVALID_UID) = (uidEnd = INVALID_UID)"
  shows "let flags = (if action = RTM_NEWRULE then NETLINK_CREATE_REQUEST_FLAGS
                      else NETLINK_REQUEST_FLAGS);
             m = (\<lambda>fam. netlink_datagram action flags
                    (rule_iov fam priority table fwmark fwmask interface uidStart uidEnd));
             r4 = netlink_ret (netlink e (trace w) (m AF_INET));
             w4 = w\<lparr>trace := trace w @ [Netlink (m AF_INET) r4]\<rparr>;
             r6 = netlink_ret (netlink e (trace w4) (m AF_INET6));
             w6 = w4\<lparr>trace := trace w4 @ [Netlink (m AF_INET6) r6]\<rparr>;
             result = modifyIpRule e action priority table fwmark fwmask interface uidStart uidEnd w
         in result = (if r4 \<noteq> 0 then (r4, w4) else (r6, w6))
            \<and> (fst result = 0 \<longleftrightarrow> r4 = 0 \<and> r6 = 0)
            \<and> decode_rule (m AF_INET)
                = Some (rule_view action AF_INET priority table fwmark fwmask interface
                          uidStart uidEnd)
            \<and> decode_rule (m AF_INET6)
                = Some (rule_view action AF_INET6 priority table fwmark fwmask interface
                          uidStart uidEnd)
            \<and> decode_rule (m AF_INET6)
                = map_option (\<lambda>v. v\<lparr>rq_family := AF_INET6\<rparr>) (decode_rule (m AF_INET))
            \<and> m AF_INET6 = with_family AF_INET6 (m AF_INET)
            \<and> m AF_INET = with_family AF_INET (m AF_INET)"
proof -
  have d: "decode_rule (netlink_datagram action
             (if action = RTM_NEWRULE then NETLINK_CREATE_REQUEST_FLAGS else NETLINK_REQUEST_FLAGS)
             (rule_iov fam priority table fwmark fwmask interface uidStart uidEnd))
           = Some (rule_view action fam priority table fwmark fwmask interface uidStart uidEnd)"
    for fam
    by (rule decode_rule_datagram [OF assms(2,3) refl])
  have v: "(rule_view action AF_INET priority table fwmark fwmask interface uidStart uidEnd)
             \<lparr>rq_family := AF_INET6\<rparr>
           = rule_view action AF_INET6 priority table fwmark fwmask interface uidStart uidEnd"
    by (simp add: rule_view_def)
  show ?thesis
    using modifyIpRule_valid [OF assms, of e action priority table w]
    by (simp add: Let_def rule_iov_with_family d v)
qed

theorem modifyIpRule_both_families_witness:
  "(0 :: uint32_t) AND NOT 0xffff = 0
   \<and> length ''wlan0'' + 1 \<le> IFNAMSIZ
   \<and> (INVALID_UID = INVALID_UID) = (INVALID_UID = INVALID_UID)
   \<and> fst (modifyIpRule env0 RTM_NEWRULE RULE_PRIORITY_MAIN RT_TABLE_MAIN 0 0xffff
             (Some ''wlan0'') INVALID_UID INVALID_UID world0) = 0
   \<and> map decode_rule (netlink_requests (trace (snd
         (modifyIpRule env0 RTM_NEWRULE RULE_PRIORITY_MAIN RT_TABLE_MAIN 0 0xffff
            (Some ''wlan0'') INVALID_UID INVALID_UID world0))))
     = [Some \<lparr>rq_type = 32, rq_flags = 0x605, rq_family = 2, rq_action = 1,
              rq_attrs = [(\<lparr>rta_len = 8, rta_type = 6\<rparr>, Some \<lparr>iov_base = U32 20000, iov_len = 4\<rparr>),
                          (\<lparr>rta_len = 8, rta_type = 15\<rparr>, Some \<lparr>iov_base = U32 254, iov_len = 4\<rparr>),
                          (\<lparr>rta_len = 8, rta_type = 10\<rparr>, Some \<lparr>iov_base = U32 0, iov_len = 4\<rparr>),
                          (\<lparr>rta_len = 8, rta_type = 16\<rparr>,
                           Some \<lparr>iov_base = U32 0xffff, iov_len = 4\<rparr>),
                          (\<lparr>rta_len = 10, rta_type = 17\<rparr>,
                           Some \<lparr>iov_base = CString ''wlan0'', iov_len = 6\<rparr>)]\<rparr>,
        Some \<lparr>rq_type = 32, rq_flags = 0x605, rq_family = 10, rq_action = 1,
              rq_attrs = [(\<lparr>rta_len = 8, rta_type = 6\<rparr>, Some \<lparr>iov_base = U32 20000, iov_len = 4\<rparr>),
                          (\<lparr>rta_len = 8, rta_type = 15\<rparr>, Some \<lparr>iov_base = U32 254, iov_len = 4\<rparr>),
                          (\<lparr>rta_len = 8, rta_type = 10\<rparr>, Some \<lparr>iov_base = U32 0, iov_len = 4\<rparr>),
                          (\<lparr>rta_len = 8, rta_type = 16\<rparr>,
                           Some \<lparr>iov_base = U32 0xffff, iov_len = 4\<rparr>),
                          (\<lparr>rta_len = 10, rta_type = 17\<rparr>,
                           Some \<lparr>iov_base = CString ''wlan0'', iov_len = 6\<rparr>)]\<rparr>]
   \<and> netlink_results (trace (snd
         (modifyIpRule env0 RTM_NEWRULE RULE_PRIORITY_MAIN RT_TABLE_MAIN 0 0xffff
            (Some ''wlan0'') INVALID_UID INVALID_UID world0))) = [0, 0]
   \<and> fst (modifyIpRule env_first_exists RTM_NEWRULE RULE_PRIORITY_MAIN RT_TABLE_MAIN 0 0xffff
            (Some ''wlan0'') INVALID_UID INVALID_UID world0) = - 17
   \<and> map (map_option rq_family o decode_rule) (netlink_requests (trace (snd
         (modifyIpRule env_first_exists RTM_NEWRULE RULE_PRIORITY_MAIN RT_TABLE_MAIN 0 0xffff
            (Some ''wlan0'') INVALID_UID INVALID_UID world0))))
     = [Some 2]
   \<and> netlink_results (trace (snd
         (modifyIpRule env_first_exists RTM_NEWRULE RULE_PRIORITY_MAIN RT_TABLE_MAIN 0 0xffff
            (Some ''wlan0'') INVALID_UID INVALID_UID world0))) = [- 17]"
  using modifyIpRule_both_families [where fwmark = 0 and fwmask = "0xffff"
      and interface = "Some ''wlan0''" and uidStart = INVALID_UID and uidEnd = INVALID_UID
      and action = RTM_NEWRULE and priority = RULE_PRIORITY_MAIN and table = RT_TABLE_MAIN
      and e = env0 and w = world0]
    modifyIpRule_both_families [where fwmark = 0 and fwmask = "0xffff"
      and interface = "Some ''wlan0''" and uidStart = INVALID_UID and uidEnd = INVALID_UID
      and action = RTM_NEWRULE and priority = RULE_PRIORITY_MAIN and table = RT_TABLE_MAIN
      and e = env_first_exists and w = world0]
  by (simp add: modifyIpRule_def AF_FAMILIES_def sendNetlinkRequest_def Let_def IFNAMSIZ_def
      env0_def env_first_exists_def world0_def netlink_ret_def netlink_requests_def
      netlink_results_def sizeof_nlmsghdr_def sizeof_nlmsgerr_def EEXIST_def
      decode_rule_def wire_def netlink_datagram_Cons rule_iov_def
      sizeof_fib_rule_hdr_def sizeof_rtattr_def sizeof_uint32_t_def
      FRATTR_PRIORITY_def FRATTR_TABLE_def FRATTR_FWMARK_def FRATTR_FWMASK_def
      FRATTR_UID_START_def FRATTR_UID_END_def U16_RTA_LENGTH_def RTA_SPACE_def RTA_LENGTH_def
      RTA_ALIGN_def RTA_ALIGNTO_def NETLINK_CREATE_REQUEST_FLAGS_def
      NLM_F_REQUEST_def NLM_F_ACK_def NLM_F_CREATE_def NLM_F_EXCL_def
      FRA_PRIORITY_def FRA_TABLE_def FRA_FWMARK_def FRA_FWMASK_def FRA_OIFNAME_def
      FR_ACT_TO_TBL_def FR_ACT_UNREACHABLE_def AF_INET_def AF_INET6_def INVALID_UID_def
      RTM_NEWRULE_def RULE_PRIORITY_MAIN_def RT_TABLE_MAIN_def NETLINK_REQUEST_FLAGS_def
      with_family_def rule_view_def rule_attrs_def u32_attr_def six_Suc FRA_UID_START_def
      FRA_UID_END_def)

section \<open>The interface table registry remembers\<close>

lemma getRouteTableForInterface_found:
  "if_nametoindex e (trace w) name \<noteq> 0 \<Longrightarrow>
   getRouteTableForInterface d e name w =
     (if_nametoindex e (trace w) name + word_of_int (ROUTE_TABLE_OFFSET_FROM_INDEX d),
      \<lparr>interfaceToIndex = (interfaceToIndex w)(name \<mapsto> if_nametoindex e (trace w) name),
       trace = trace w @ [Nametoindex name (if_nametoindex e (trace w) name)]\<rparr>)"
  by (simp add: getRouteTableForInterface_def Let_def)

lemma getRouteTableForInterface_gone:
  "if_nametoindex e (trace w) name = 0 \<Longrightarrow>
   getRouteTableForInterface d e name w =
     ((case interfaceToIndex w name of
         None \<Rightarrow> 0
       | Some i \<Rightarrow> if i \<noteq> 0 then i + word_of_int (ROUTE_TABLE_OFFSET_FROM_INDEX d) else 0),
      w\<lparr>trace := trace w @ [Nametoindex name 0]\<rparr>)"
  by (simp add: getRouteTableForInterface_def Let_def split: option.splits)

text \<open>
  C7, as the code has it. A call that resolves the name returns the index plus the
  offset (modulo \<open>2 ^ 32\<close>) and leaves the index in the map. In any later state that
  still holds this entry, a call for which the resolution fails returns the same table
  id. A call for another name, or one whose resolution fails, does not touch the entry.
  For a name with no entry, a call whose resolution fails returns 0.
\<close>

theorem getRouteTableForInterface_remembers:
  "(if_nametoindex e (trace w) name \<noteq> 0 \<longrightarrow>
      (let (t, w1) = getRouteTableForInterface d e name w
       in t = if_nametoindex e (trace w) name + word_of_int (ROUTE_TABLE_OFFSET_FROM_INDEX d)
          \<and> interfaceToIndex w1 name = Some (if_nametoindex e (trace w) name)
          \<and> (\<forall>e' w2. interfaceToIndex w2 name = interfaceToIndex w1 name
                \<and> if_nametoindex e' (trace w2) name = 0
                \<longrightarrow> getRouteTableForInterface d e' name w2
                      = (t, w2\<lparr>trace := trace w2 @ [Nametoindex name 0]\<rparr>))))
   \<and> (name' \<noteq> name \<or> if_nametoindex e (trace w) name' = 0 \<longrightarrow>
        interfaceToIndex (snd (getRouteTableForInterface d e name' w)) name
          = interfaceToIndex w name)
   \<and> (if_nametoindex e (trace w) name = 0 \<and> interfaceToIndex w name = None \<longrightarrow>
        getRouteTableForInterface d e name w = (0, w\<lparr>trace := trace w @ [Nametoindex name 0]\<rparr>))"
  by (cases "if_nametoindex e (trace w) name' = 0")
     (auto simp add: getRouteTableForInterface_found getRouteTableForInterface_gone)

theorem getRouteTableForInterface_remembers_witness:
  "if_nametoindex env0 (trace world0) ''wlan0'' \<noteq> 0
   \<and> getRouteTableForInterface decls0 env0 ''wlan0'' world0
       = (1005, \<lparr>interfaceToIndex = [''wlan0'' \<mapsto> 5], trace = [Nametoindex ''wlan0'' 5]\<rparr>)
   \<and> if_nametoindex env_gone [Nametoindex ''wlan0'' 5] ''wlan0'' = 0
   \<and> getRouteTableForInterface decls0 env_gone ''wlan0''
         \<lparr>interfaceToIndex = [''wlan0'' \<mapsto> 5], trace = [Nametoindex ''wlan0'' 5]\<rparr>
       = (1005, \<lparr>interfaceToIndex = [''wlan0'' \<mapsto> 5],
                 trace = [Nametoindex ''wlan0'' 5, Nametoindex ''wlan0'' 0]\<rparr>)
   \<and> interfaceToIndex world0 ''wlan0'' = None
   \<and> getRouteTableForInterface decls0 env_gone ''wlan0'' world0
       = (0, \<lparr>interfaceToIndex = Map.empty, trace = [Nametoindex ''wlan0'' 0]\<rparr>)"
  using getRouteTableForInterface_remembers [of env0 world0 "''wlan0''" decls0]
        getRouteTableForInterface_remembers [of env_gone world0 "''wlan0''" decls0]
  by (simp add: env0_def env_gone_def world0_def decls0_def Let_def getRouteTableForInterface_def)

text \<open>
  C7 as stated fails, because a successful resolution in the past is not enough: the
  entry must still be there. \<open>wlan0\<close> is resolved (table 1005), then its routes are
  flushed, which succeeds and erases the entry; when \<open>wlan0\<close> is gone after that, the
  table returned for it is 0, not 1005.
\<close>

theorem getRouteTableForInterface_remembers_counterexample:
  "fst (getRouteTableForInterface decls0 env0 ''wlan0'' world0) = 1005
   \<and> interfaceToIndex (snd (getRouteTableForInterface decls0 env0 ''wlan0'' world0)) ''wlan0''
     = Some 5
   \<and> fst (flushRoutes decls0 env0 ''wlan0''
             (snd (getRouteTableForInterface decls0 env0 ''wlan0'' world0))) = 0
   \<and> interfaceToIndex
        (snd (flushRoutes decls0 env0 ''wlan0''
                (snd (getRouteTableForInterface decls0 env0 ''wlan0'' world0)))) ''wlan0''
     = None
   \<and> fst (getRouteTableForInterface decls0 env_gone ''wlan0''
             (snd (flushRoutes decls0 env0 ''wlan0''
                     (snd (getRouteTableForInterface decls0 env0 ''wlan0'' world0))))) = 0"
  by (simp add: getRouteTableForInterface_def flushRoutes_def IP_VERSIONS_def Let_def
      env0_def env_gone_def world0_def decls0_def)

section \<open>Interface tables and the reserved tables\<close>

lemma uint_add_offset:
  fixes i :: uint32_t
  assumes "0 \<le> off" "uint i + off < 2 ^ 32"
  shows "uint (i + word_of_int off) = uint i + off"
proof -
  have "0 \<le> uint i" by simp
  then have "off < 2 ^ 32" using assms(2) by linarith
  then have "uint (word_of_int off :: uint32_t) = off"
    using assms(1) by (simp add: uint_word_of_int)
  then have "uint (i + word_of_int off) = (uint i + off) mod 2 ^ 32"
    by (simp add: uint_word_ariths)
  moreover have "0 \<le> uint i + off" using assms(1) by simp
  ultimately show ?thesis using assms(2) by simp
qed

lemma table_apart:
  fixes i :: uint32_t
  assumes "0 \<le> off" "off < 2 ^ 31" "uint i < 2 ^ 31" "i \<noteq> 0"
  shows "off < uint (i + word_of_int off)"
    and "i + word_of_int off \<noteq> word_of_int (off - 902)"
    and "i + word_of_int off \<noteq> word_of_int (off - 901)"
proof -
  have "uint i \<noteq> 0" using assms(4) by (simp add: uint_0_iff)
  moreover have "0 \<le> uint i" by simp
  ultimately have pos: "0 < uint i" by linarith
  have sum: "uint i + off < 2 ^ 32" using assms(2,3) by simp
  have eq: "uint (i + word_of_int off) = uint i + off"
    using assms(1) sum by (rule uint_add_offset)
  show "off < uint (i + word_of_int off)" using eq pos by simp
  have "uint (word_of_int (off - 902) :: uint32_t) = (off - 902) mod 2 ^ LENGTH(32)"
    by (rule uint_word_of_int)
  then have r2: "uint (word_of_int (off - 902) :: uint32_t) = (off - 902) mod 2 ^ 32"
    by simp
  have "uint (word_of_int (off - 901) :: uint32_t) = (off - 901) mod 2 ^ LENGTH(32)"
    by (rule uint_word_of_int)
  then have r1: "uint (word_of_int (off - 901) :: uint32_t) = (off - 901) mod 2 ^ 32"
    by simp
  have m2: "(off - 902) mod 2 ^ 32 = (if 902 \<le> off then off - 902 else off - 902 + 2 ^ 32)"
  proof (cases "902 \<le> off")
    case True
    then show ?thesis using assms(2) by simp
  next
    case False
    then have "0 \<le> off - 902 + 2 ^ 32" "off - 902 + 2 ^ 32 < 2 ^ 32" using assms(1) by simp_all
    then have "(off - 902 + 2 ^ 32) mod 2 ^ 32 = off - 902 + 2 ^ 32" by simp
    moreover have "(off - 902 + 2 ^ 32) mod 2 ^ 32 = (off - 902) mod 2 ^ 32"
      by (rule mod_add_self2)
    ultimately show ?thesis using False by simp
  qed
  have m1: "(off - 901) mod 2 ^ 32 = (if 901 \<le> off then off - 901 else off - 901 + 2 ^ 32)"
  proof (cases "901 \<le> off")
    case True
    then show ?thesis using assms(2) by simp
  next
    case False
    then have "0 \<le> off - 901 + 2 ^ 32" "off - 901 + 2 ^ 32 < 2 ^ 32" using assms(1) by simp_all
    then have "(off - 901 + 2 ^ 32) mod 2 ^ 32 = off - 901 + 2 ^ 32" by simp
    moreover have "(off - 901 + 2 ^ 32) mod 2 ^ 32 = (off - 901) mod 2 ^ 32"
      by (rule mod_add_self2)
    ultimately show ?thesis using False by simp
  qed
  have "uint (i + word_of_int off) \<noteq> uint (word_of_int (off - 902) :: uint32_t)"
    unfolding eq r2 m2 using pos assms(2,3) by (simp split: if_splits)
  then show "i + word_of_int off \<noteq> word_of_int (off - 902)" by auto
  have "uint (i + word_of_int off) \<noteq> uint (word_of_int (off - 901) :: uint32_t)"
    unfolding eq r1 m1 using pos assms(2,3) by (simp split: if_splits)
  then show "i + word_of_int off \<noteq> word_of_int (off - 901)" by auto
qed

lemma reserved_apart:
  "(word_of_int (off - 902) :: uint32_t) \<noteq> word_of_int (off - 901)"
proof
  assume "(word_of_int (off - 902) :: uint32_t) = word_of_int (off - 901)"
  then have "(word_of_int (off - 901) :: uint32_t) - word_of_int (off - 902) = 0" by simp
  then have "(word_of_int ((off - 901) - (off - 902)) :: uint32_t) = 0"
    by (simp only: word_of_int_homs)
  then show False by simp
qed

text \<open>
  C10. An interface index is a positive \<open>int\<close> of the kernel, so it is below
  \<open>2 ^ 31\<close>; the offset is a non-negative \<open>int\<close>. For such an offset and such
  indices (the one the resolver returns and the one in the map) the sum does not wrap
  around: the table id returned is 0 or greater than the offset, and if not 0 it
  differs from both reserved ids, as converted to \<open>uint32_t\<close>; the two reserved ids
  differ from each other; and the index the call leaves in the map is again below
  \<open>2 ^ 31\<close>.
\<close>

theorem getRouteTableForInterface_apart_from_reserved:
  assumes "0 \<le> ROUTE_TABLE_OFFSET_FROM_INDEX d"
      and "ROUTE_TABLE_OFFSET_FROM_INDEX d < 2 ^ 31"
      and "uint (if_nametoindex e (trace w) name) < 2 ^ 31"
      and "case interfaceToIndex w name of None \<Rightarrow> True | Some i \<Rightarrow> uint i < 2 ^ 31"
  shows "let (t, w') = getRouteTableForInterface d e name w
         in (t = 0 \<or> ROUTE_TABLE_OFFSET_FROM_INDEX d < uint t)
            \<and> (t = 0 \<or> (t \<noteq> word_of_int (ROUTE_TABLE_LEGACY d)
                         \<and> t \<noteq> word_of_int (ROUTE_TABLE_PRIVILEGED_LEGACY d)))
            \<and> (word_of_int (ROUTE_TABLE_LEGACY d) :: uint32_t)
                 \<noteq> word_of_int (ROUTE_TABLE_PRIVILEGED_LEGACY d)
            \<and> (case interfaceToIndex w' name of None \<Rightarrow> True | Some i \<Rightarrow> uint i < 2 ^ 31)"
proof -
  note distinct = reserved_apart [of "ROUTE_TABLE_OFFSET_FROM_INDEX d"]
  show ?thesis
  proof (cases "if_nametoindex e (trace w) name = 0")
    case False
    then show ?thesis
      using table_apart [OF assms(1) assms(2) assms(3) False] assms(3) distinct
      by (simp add: getRouteTableForInterface_found ROUTE_TABLE_LEGACY_def
          ROUTE_TABLE_PRIVILEGED_LEGACY_def)
  next
    case True
    show ?thesis
    proof (cases "interfaceToIndex w name")
      case None
      then show ?thesis
        using True distinct
        by (simp add: getRouteTableForInterface_gone ROUTE_TABLE_LEGACY_def
            ROUTE_TABLE_PRIVILEGED_LEGACY_def)
    next
      case (Some i)
      then have r: "uint i < 2 ^ 31" using assms(4) by simp
      show ?thesis
      proof (cases "i = 0")
        case True
        then show ?thesis
          using \<open>if_nametoindex e (trace w) name = 0\<close> Some distinct r
          by (simp add: getRouteTableForInterface_gone ROUTE_TABLE_LEGACY_def
              ROUTE_TABLE_PRIVILEGED_LEGACY_def)
      next
        case False
        then show ?thesis
          using \<open>if_nametoindex e (trace w) name = 0\<close> Some distinct r
            table_apart [OF assms(1) assms(2) r False]
          by (simp add: getRouteTableForInterface_gone ROUTE_TABLE_LEGACY_def
              ROUTE_TABLE_PRIVILEGED_LEGACY_def)
      qed
    qed
  qed
qed

theorem getRouteTableForInterface_apart_from_reserved_witness:
  "0 \<le> ROUTE_TABLE_OFFSET_FROM_INDEX decls0
   \<and> ROUTE_TABLE_OFFSET_FROM_INDEX decls0 < 2 ^ 31
   \<and> uint (if_nametoindex env0 (trace world0) ''wlan0'') < 2 ^ 31
   \<and> interfaceToIndex world0 ''wlan0'' = None
   \<and> fst (getRouteTableForInterface decls0 env0 ''wlan0'' world0) = 1005
   \<and> ROUTE_TABLE_OFFSET_FROM_INDEX decls0 < uint (1005 :: uint32_t)
   \<and> (1005 :: uint32_t) \<noteq> word_of_int (ROUTE_TABLE_LEGACY decls0)
   \<and> (1005 :: uint32_t) \<noteq> word_of_int (ROUTE_TABLE_PRIVILEGED_LEGACY decls0)
   \<and> (word_of_int (ROUTE_TABLE_LEGACY decls0) :: uint32_t) = 98
   \<and> (word_of_int (ROUTE_TABLE_PRIVILEGED_LEGACY decls0) :: uint32_t) = 99"
  using getRouteTableForInterface_apart_from_reserved [of decls0 env0 world0 "''wlan0''"]
  by (simp add: env0_def world0_def decls0_def Let_def getRouteTableForInterface_def
      ROUTE_TABLE_LEGACY_def ROUTE_TABLE_PRIVILEGED_LEGACY_def)

section \<open>Sequences of requests\<close>

lemma modifyIpRule_steps:
  "modifyIpRule e action priority table fwmark fwmask interface INVALID_UID INVALID_UID w
     = run_steps e (rule_steps action priority table fwmark fwmask interface) w"
  by (simp add: modifyIpRule_def rule_steps_def AF_FAMILIES_def sendNetlinkRequest_def Let_def)

lemma run_steps_rule_append:
  "run_steps e (rule_steps action priority table fwmark fwmask interface @ rest) w
     = (case run_steps e (rule_steps action priority table fwmark fwmask interface) w of
          (r, w') \<Rightarrow> if r \<noteq> 0 then (r, w') else run_steps e rest w')"
  by (simp add: rule_steps_def Let_def ERANGE_def ENAMETOOLONG_def)

lemma sends_rule_steps:
  "sends (rule_steps action priority table fwmark fwmask interface @ rest)
     = [netlink_datagram action
          (if action = RTM_NEWRULE then NETLINK_CREATE_REQUEST_FLAGS else NETLINK_REQUEST_FLAGS)
          (rule_iov AF_INET priority table fwmark fwmask interface INVALID_UID INVALID_UID),
        netlink_datagram action
          (if action = RTM_NEWRULE then NETLINK_CREATE_REQUEST_FLAGS else NETLINK_REQUEST_FLAGS)
          (rule_iov AF_INET6 priority table fwmark fwmask interface INVALID_UID INVALID_UID)]
       @ sends rest"
  by (simp add: rule_steps_def)

lemma request_type_datagram:
  "request_type (netlink_datagram action flags (v # segs)) = Some action"
  by (simp add: request_type_def netlink_datagram_Cons)

lemma request_type_rule_steps:
  "m \<in> set (sends (rule_steps action priority table fwmark fwmask interface)) \<Longrightarrow>
   request_type m = Some action"
  by (auto simp add: rule_steps_def rule_iov_def Let_def request_type_datagram)

lemma request_type_per_network:
  "m \<in> set (sends (per_network_steps d action table netId' interface permission')) \<Longrightarrow>
   request_type m = Some action"
  by (auto simp add: per_network_steps_def sends_rule_steps
      sends_rule_steps [where rest = "[]", simplified]
      rule_iov_def Let_def request_type_datagram)

lemma run_steps_trace:
  "run_steps e steps w = (r, w') \<Longrightarrow>
   interfaceToIndex w' = interfaceToIndex w \<and>
   (\<exists>evs. trace w' = trace w @ evs \<and>
      (\<forall>ev \<in> set evs. \<exists>m r'. ev = Netlink m r' \<and> m \<in> set (sends steps)))"
proof (induction e steps w arbitrary: r w' rule: run_steps.induct)
  case (1 e w)
  then show ?case by simp
next
  case (2 e err refused steps w)
  then show ?case by (cases refused) auto
next
  case (3 e m steps w)
  let ?r = "netlink_ret (netlink e (trace w) m)"
  let ?w = "w\<lparr>trace := trace w @ [Netlink m ?r]\<rparr>"
  show ?case
  proof (cases "?r = 0")
    case False
    then show ?thesis using 3(2) by (auto simp add: Let_def)
  next
    case True
    then have run: "run_steps e steps ?w = (r, w')" using 3(2) by (simp add: Let_def)
    have "interfaceToIndex w' = interfaceToIndex ?w \<and>
      (\<exists>evs. trace w' = trace ?w @ evs \<and>
         (\<forall>ev \<in> set evs. \<exists>m r'. ev = Netlink m r' \<and> m \<in> set (sends steps)))"
      using 3(1) [OF refl refl _ run] True by simp
    then obtain evs where ev: "interfaceToIndex w' = interfaceToIndex ?w"
        "trace w' = trace ?w @ evs"
        "\<forall>ev \<in> set evs. \<exists>m r'. ev = Netlink m r' \<and> m \<in> set (sends steps)"
      by blast
    have "trace w' = trace w @ (Netlink m ?r # evs)" using ev(2) by simp
    moreover have "\<forall>ev \<in> set (Netlink m ?r # evs).
        \<exists>m' r'. ev = Netlink m' r' \<and> m' \<in> set (sends (Send m # steps))"
      using ev(3) by auto
    ultimately show ?thesis using ev(1) by (intro conjI exI [of _ "Netlink m ?r # evs"]) simp_all
  qed
qed

lemma run_steps_zero:
  "run_steps e steps w = (0, w') \<Longrightarrow>
   list_all (\<lambda>s. case s of Refuse err refused \<Rightarrow> err \<noteq> 0 | Send m \<Rightarrow> True) steps \<Longrightarrow>
   trace w' = trace w @ map (\<lambda>m. Netlink m 0) (sends steps)"
proof (induction e steps w arbitrary: w' rule: run_steps.induct)
  case (1 e w)
  then show ?case by simp
next
  case (2 e err refused steps w)
  then show ?case by (cases refused) auto
next
  case (3 e m steps w)
  let ?r = "netlink_ret (netlink e (trace w) m)"
  let ?w = "w\<lparr>trace := trace w @ [Netlink m ?r]\<rparr>"
  have z: "?r = 0" using 3(2) by (auto simp add: Let_def split: if_splits)
  then have run: "run_steps e steps ?w = (0, w')" using 3(2) by (simp add: Let_def)
  have "trace w' = trace ?w @ map (\<lambda>m. Netlink m 0) (sends steps)"
    using 3(1) [OF refl refl _ run] z 3(3) by simp
  then show ?case using z by simp
qed

lemma run_steps_outcome:
  assumes "run_steps e steps w = (r, w')"
      and "list_all (\<lambda>s. case s of Refuse err refused \<Rightarrow> err \<noteq> 0 | Send m \<Rightarrow> True) steps"
  shows "\<exists>k \<le> length (sends steps).
           (trace w' = trace w @ map (\<lambda>m. Netlink m 0) (take k (sends steps))
            \<and> (r = 0 \<longrightarrow> k = length (sends steps)))
           \<or> (k < length (sends steps) \<and> r \<noteq> 0
              \<and> trace w' = trace w @ map (\<lambda>m. Netlink m 0) (take k (sends steps))
                             @ [Netlink (sends steps ! k) r])"
  using assms
proof (induction e steps w arbitrary: r w' rule: run_steps.induct)
  case (1 e w)
  then show ?case by simp
next
  case (2 e err refused steps w)
  show ?case
  proof (cases refused)
    case True
    then have "r = err" "w' = w" using 2(2) by simp_all
    moreover have "err \<noteq> 0" using 2(3) by simp
    ultimately show ?thesis by (intro exI [of _ 0]) simp
  next
    case False
    then have "run_steps e steps w = (r, w')" using 2(2) by simp
    then show ?thesis using 2(1) [OF False] 2(3) by simp
  qed
next
  case (3 e m steps w)
  let ?r = "netlink_ret (netlink e (trace w) m)"
  let ?w = "w\<lparr>trace := trace w @ [Netlink m ?r]\<rparr>"
  show ?case
  proof (cases "?r = 0")
    case False
    then have "run_steps e (Send m # steps) w = (?r, ?w)" by (simp add: Let_def)
    then have "(r, w') = (?r, ?w)" using 3(2) by (simp only:)
    then have "r = ?r" "w' = ?w" by blast+
    then show ?thesis using False by (intro exI [of _ 0]) simp
  next
    case True
    then have run: "run_steps e steps ?w = (r, w')" using 3(2) by (simp add: Let_def)
    have all: "list_all (\<lambda>s. case s of Refuse err refused \<Rightarrow> err \<noteq> 0 | Send m \<Rightarrow> True) steps"
      using 3(3) by simp
    obtain k where k: "k \<le> length (sends steps)"
      "(trace w' = trace ?w @ map (\<lambda>m. Netlink m 0) (take k (sends steps))
            \<and> (r = 0 \<longrightarrow> k = length (sends steps)))
           \<or> (k < length (sends steps) \<and> r \<noteq> 0
              \<and> trace w' = trace ?w @ map (\<lambda>m. Netlink m 0) (take k (sends steps))
                             @ [Netlink (sends steps ! k) r])"
      using 3(1) [OF refl refl _ run all] True by blast
    show ?thesis
      using k True by (intro exI [of _ "Suc k"]) auto
  qed
qed

lemma rule_steps_refusals:
  "list_all (\<lambda>s. case s of Refuse err refused \<Rightarrow> err \<noteq> 0 | Send m \<Rightarrow> True)
     (rule_steps action priority table fwmark fwmask interface)"
  by (simp add: rule_steps_def ERANGE_def ENAMETOOLONG_def)

section \<open>The baseline rules\<close>

text \<open>
  C1. \<open>Init\<close> is the run of the steps of three rules, each added for \<open>AF_INET\<close> and
  then for \<open>AF_INET6\<close>: priority 20000 into the main table, the mask selecting the
  network id and the mark giving it as 0; priority 16000 into the legacy table, the mask
  selecting the "explicitly selected" bit and the mark leaving it clear; priority 11000
  into the privileged legacy table, which matches the same and the permission
  \<open>CONNECTIVITY_INTERNAL\<close>. Read back, the six datagrams are these six rule requests
  and nothing else. \<open>Init\<close> leaves the map alone, and what it adds to the trace is the
  first \<open>k\<close> of the six requests, each acknowledged, followed, when a request was
  refused by the kernel, by that request with its error, which is the value returned;
  when 0 is returned all six were sent. No request deletes a rule.
\<close>

theorem Init_baseline_rules:
  "let legacy = word_of_int (ROUTE_TABLE_LEGACY d);
       privileged = word_of_int (ROUTE_TABLE_PRIVILEGED_LEGACY d);
       mark1 = intValue d ((Fwmark_ctor d)\<lparr>netId := 0\<rparr>);
       mask1 = intValue d ((Fwmark_ctor d)\<lparr>netId := FWMARK_NET_ID_MASK d\<rparr>);
       mark2 = intValue d ((Fwmark_ctor d)\<lparr>netId := 0, explicitlySelected := False\<rparr>);
       mask2 = intValue d ((Fwmark_ctor d)\<lparr>netId := 0, explicitlySelected := True\<rparr>);
       mark3 = intValue d ((Fwmark_ctor d)\<lparr>netId := 0, explicitlySelected := False,
                                            permission := PERMISSION_CONNECTIVITY_INTERNAL d\<rparr>);
       mask3 = intValue d ((Fwmark_ctor d)\<lparr>netId := 0, explicitlySelected := True,
                                            permission := PERMISSION_CONNECTIVITY_INTERNAL d\<rparr>);
       steps = rule_steps RTM_NEWRULE 20000 RT_TABLE_MAIN mark1 mask1 None
               @ rule_steps RTM_NEWRULE 16000 legacy mark2 mask2 None
               @ rule_steps RTM_NEWRULE 11000 privileged mark3 mask3 None;
       (r, w') = Init d e w
   in (r, w') = run_steps e steps w
      \<and> map decode_rule (sends steps)
        = map Some
            [rule_view RTM_NEWRULE AF_INET 20000 RT_TABLE_MAIN mark1 mask1 None
               INVALID_UID INVALID_UID,
             rule_view RTM_NEWRULE AF_INET6 20000 RT_TABLE_MAIN mark1 mask1 None
               INVALID_UID INVALID_UID,
             rule_view RTM_NEWRULE AF_INET 16000 legacy mark2 mask2 None INVALID_UID INVALID_UID,
             rule_view RTM_NEWRULE AF_INET6 16000 legacy mark2 mask2 None INVALID_UID INVALID_UID,
             rule_view RTM_NEWRULE AF_INET 11000 privileged mark3 mask3 None
               INVALID_UID INVALID_UID,
             rule_view RTM_NEWRULE AF_INET6 11000 privileged mark3 mask3 None
               INVALID_UID INVALID_UID]
      \<and> (\<exists>k \<le> 6.
            (trace w' = trace w @ map (\<lambda>m. Netlink m 0) (take k (sends steps))
             \<and> (r = 0 \<longrightarrow> k = 6))
            \<or> (k < 6 \<and> r \<noteq> 0
               \<and> trace w' = trace w @ map (\<lambda>m. Netlink m 0) (take k (sends steps))
                              @ [Netlink (sends steps ! k) r]))"
proof -
  have run: "Init d e w
      = run_steps e
          (rule_steps RTM_NEWRULE 20000 RT_TABLE_MAIN
             (intValue d ((Fwmark_ctor d)\<lparr>netId := 0\<rparr>))
             (intValue d ((Fwmark_ctor d)\<lparr>netId := FWMARK_NET_ID_MASK d\<rparr>)) None
           @ rule_steps RTM_NEWRULE 16000 (word_of_int (ROUTE_TABLE_LEGACY d))
               (intValue d ((Fwmark_ctor d)\<lparr>netId := 0, explicitlySelected := False\<rparr>))
               (intValue d ((Fwmark_ctor d)\<lparr>netId := 0, explicitlySelected := True\<rparr>)) None
           @ rule_steps RTM_NEWRULE 11000 (word_of_int (ROUTE_TABLE_PRIVILEGED_LEGACY d))
               (intValue d ((Fwmark_ctor d)\<lparr>netId := 0, explicitlySelected := False,
                                 permission := PERMISSION_CONNECTIVITY_INTERNAL d\<rparr>))
               (intValue d ((Fwmark_ctor d)\<lparr>netId := 0, explicitlySelected := True,
                                 permission := PERMISSION_CONNECTIVITY_INTERNAL d\<rparr>)) None)
          w"
    by (simp add: Init_def modifyIpRule_steps run_steps_rule_append
        Let_def
        RULE_PRIORITY_MAIN_def RULE_PRIORITY_LEGACY_def RULE_PRIORITY_PRIVILEGED_LEGACY_def
        split: prod.splits)
  obtain r w' where i: "Init d e w = (r, w')"
    by (cases "Init d e w") blast
  have len: "length (sends (rule_steps a1 p1 t1 f1 m1 i1 @ rule_steps a2 p2 t2 f2 m2 i2
                            @ rule_steps a3 p3 t3 f3 m3 i3)) = 6"
    for a1 p1 t1 f1 m1 i1 a2 p2 t2 f2 m2 i2 a3 p3 t3 f3 m3 i3
    by (simp add: sends_rule_steps sends_rule_steps [where rest = "[]", simplified])
  have all: "list_all (\<lambda>s. case s of Refuse err refused \<Rightarrow> err \<noteq> 0 | Send m \<Rightarrow> True)
               (rule_steps a1 p1 t1 f1 m1 i1 @ rule_steps a2 p2 t2 f2 m2 i2
                @ rule_steps a3 p3 t3 f3 m3 i3)"
    for a1 p1 t1 f1 m1 i1 a2 p2 t2 f2 m2 i2 a3 p3 t3 f3 m3 i3
    by (simp add: rule_steps_refusals)
  note out = run_steps_outcome [OF run [unfolded i, symmetric] all, unfolded len]
  show ?thesis
    unfolding Let_def i prod.case
    by (intro conjI, rule run [unfolded i], 
        simp add: sends_rule_steps sends_rule_steps [where rest = "[]", simplified]
          decode_rule_datagram, rule out)
qed

lemmas init_eval_defs =
  Init_def modifyIpRule_def AF_FAMILIES_def sendNetlinkRequest_def Let_def
  decls0_def env0_def env_first_exists_def world0_def bitfield_intValue_def netlink_ret_def
  netlink_requests_def netlink_results_def
  sizeof_nlmsghdr_def sizeof_nlmsgerr_def EEXIST_def
  decode_rule_def wire_def netlink_datagram_Cons rule_iov_def
  sizeof_fib_rule_hdr_def sizeof_rtattr_def sizeof_uint32_t_def
  FRATTR_PRIORITY_def FRATTR_TABLE_def FRATTR_FWMARK_def FRATTR_FWMASK_def
  FRATTR_UID_START_def FRATTR_UID_END_def U16_RTA_LENGTH_def RTA_SPACE_def RTA_LENGTH_def
  RTA_ALIGN_def RTA_ALIGNTO_def NETLINK_CREATE_REQUEST_FLAGS_def NETLINK_REQUEST_FLAGS_def
  NLM_F_REQUEST_def NLM_F_ACK_def NLM_F_CREATE_def NLM_F_EXCL_def
  FRA_PRIORITY_def FRA_TABLE_def FRA_FWMARK_def FRA_FWMASK_def FRA_OIFNAME_def
  FR_ACT_TO_TBL_def FR_ACT_UNREACHABLE_def AF_INET_def AF_INET6_def INVALID_UID_def
  RTM_NEWRULE_def RULE_PRIORITY_MAIN_def RULE_PRIORITY_LEGACY_def
  RULE_PRIORITY_PRIVILEGED_LEGACY_def RT_TABLE_MAIN_def ROUTE_TABLE_LEGACY_def
  ROUTE_TABLE_PRIVILEGED_LEGACY_def rule_steps_def

theorem Init_baseline_rules_witness:
  "fst (Init decls0 env0 world0) = 0
   \<and> interfaceToIndex (snd (Init decls0 env0 world0)) = Map.empty
   \<and> length (trace (snd (Init decls0 env0 world0))) = 6
   \<and> netlink_results (trace (snd (Init decls0 env0 world0))) = [0, 0, 0, 0, 0, 0]
   \<and> map decode_rule (netlink_requests (trace (snd (Init decls0 env0 world0))))
     = [Some \<lparr>rq_type = 32, rq_flags = 0x605, rq_family = 2, rq_action = 1,
              rq_attrs = [(\<lparr>rta_len = 8, rta_type = 6\<rparr>, Some \<lparr>iov_base = U32 20000, iov_len = 4\<rparr>),
                          (\<lparr>rta_len = 8, rta_type = 15\<rparr>, Some \<lparr>iov_base = U32 254, iov_len = 4\<rparr>),
                          (\<lparr>rta_len = 8, rta_type = 10\<rparr>, Some \<lparr>iov_base = U32 0, iov_len = 4\<rparr>),
                          (\<lparr>rta_len = 8, rta_type = 16\<rparr>,
                           Some \<lparr>iov_base = U32 0xffff, iov_len = 4\<rparr>)]\<rparr>,
        Some \<lparr>rq_type = 32, rq_flags = 0x605, rq_family = 10, rq_action = 1,
              rq_attrs = [(\<lparr>rta_len = 8, rta_type = 6\<rparr>, Some \<lparr>iov_base = U32 20000, iov_len = 4\<rparr>),
                          (\<lparr>rta_len = 8, rta_type = 15\<rparr>, Some \<lparr>iov_base = U32 254, iov_len = 4\<rparr>),
                          (\<lparr>rta_len = 8, rta_type = 10\<rparr>, Some \<lparr>iov_base = U32 0, iov_len = 4\<rparr>),
                          (\<lparr>rta_len = 8, rta_type = 16\<rparr>,
                           Some \<lparr>iov_base = U32 0xffff, iov_len = 4\<rparr>)]\<rparr>,
        Some \<lparr>rq_type = 32, rq_flags = 0x605, rq_family = 2, rq_action = 1,
              rq_attrs = [(\<lparr>rta_len = 8, rta_type = 6\<rparr>, Some \<lparr>iov_base = U32 16000, iov_len = 4\<rparr>),
                          (\<lparr>rta_len = 8, rta_type = 15\<rparr>, Some \<lparr>iov_base = U32 98, iov_len = 4\<rparr>),
                          (\<lparr>rta_len = 8, rta_type = 10\<rparr>, Some \<lparr>iov_base = U32 0, iov_len = 4\<rparr>),
                          (\<lparr>rta_len = 8, rta_type = 16\<rparr>,
                           Some \<lparr>iov_base = U32 0x10000, iov_len = 4\<rparr>)]\<rparr>,
        Some \<lparr>rq_type = 32, rq_flags = 0x605, rq_family = 10, rq_action = 1,
              rq_attrs = [(\<lparr>rta_len = 8, rta_type = 6\<rparr>, Some \<lparr>iov_base = U32 16000, iov_len = 4\<rparr>),
                          (\<lparr>rta_len = 8, rta_type = 15\<rparr>, Some \<lparr>iov_base = U32 98, iov_len = 4\<rparr>),
                          (\<lparr>rta_len = 8, rta_type = 10\<rparr>, Some \<lparr>iov_base = U32 0, iov_len = 4\<rparr>),
                          (\<lparr>rta_len = 8, rta_type = 16\<rparr>,
                           Some \<lparr>iov_base = U32 0x10000, iov_len = 4\<rparr>)]\<rparr>,
        Some \<lparr>rq_type = 32, rq_flags = 0x605, rq_family = 2, rq_action = 1,
              rq_attrs = [(\<lparr>rta_len = 8, rta_type = 6\<rparr>, Some \<lparr>iov_base = U32 11000, iov_len = 4\<rparr>),
                          (\<lparr>rta_len = 8, rta_type = 15\<rparr>, Some \<lparr>iov_base = U32 99, iov_len = 4\<rparr>),
                          (\<lparr>rta_len = 8, rta_type = 10\<rparr>,
                           Some \<lparr>iov_base = U32 0x80000, iov_len = 4\<rparr>),
                          (\<lparr>rta_len = 8, rta_type = 16\<rparr>,
                           Some \<lparr>iov_base = U32 0x90000, iov_len = 4\<rparr>)]\<rparr>,
        Some \<lparr>rq_type = 32, rq_flags = 0x605, rq_family = 10, rq_action = 1,
              rq_attrs = [(\<lparr>rta_len = 8, rta_type = 6\<rparr>, Some \<lparr>iov_base = U32 11000, iov_len = 4\<rparr>),
                          (\<lparr>rta_len = 8, rta_type = 15\<rparr>, Some \<lparr>iov_base = U32 99, iov_len = 4\<rparr>),
                          (\<lparr>rta_len = 8, rta_type = 10\<rparr>,
                           Some \<lparr>iov_base = U32 0x80000, iov_len = 4\<rparr>),
                          (\<lparr>rta_len = 8, rta_type = 16\<rparr>,
                           Some \<lparr>iov_base = U32 0x90000, iov_len = 4\<rparr>)]\<rparr>]
   \<and> fst (Init decls0 env_first_exists world0) = - 17
   \<and> netlink_results (trace (snd (Init decls0 env_first_exists world0))) = [- 17]
   \<and> length (trace (snd (Init decls0 env_first_exists world0))) = 1"
  using Init_baseline_rules [of decls0 env0 world0]
        Init_baseline_rules [of decls0 env_first_exists world0]
  by (simp add: init_eval_defs)

section \<open>Changing the permission of a network\<close>

lemma modifyPerNetworkRules_steps:
  "modifyPerNetworkRules d e netId' interface permission' add False w
     = (case getRouteTableForInterface d e interface w of
          (t, w0) \<Rightarrow>
            if t = 0 then (- ESRCH, w0)
            else run_steps e
                   (per_network_steps d (if add then RTM_NEWRULE else RTM_DELRULE) t netId'
                      interface permission')
                   w0)"
  by (simp add: modifyPerNetworkRules_def per_network_steps_def modifyIpRule_steps
      run_steps_rule_append Let_def RULE_PRIORITY_PER_NETWORK_INTERFACE_def
      RULE_PRIORITY_PER_NETWORK_NORMAL_def RULE_PRIORITY_PER_NETWORK_EXPLICIT_def
      split: prod.splits)

lemma per_network_decoded:
  "length interface + 1 \<le> IFNAMSIZ \<Longrightarrow>
   map decode_rule (sends (per_network_steps d action table netId' interface permission'))
     = map Some (per_network_views d action table netId' interface permission')"
  by (simp add: per_network_steps_def per_network_views_def per_network_rules_def
      sends_rule_steps sends_rule_steps [where rest = "[]", simplified] decode_rule_datagram)

lemma per_network_steps_refusals:
  "list_all (\<lambda>s. case s of Refuse err refused \<Rightarrow> err \<noteq> 0 | Send m \<Rightarrow> True)
     (per_network_steps d action table netId' interface permission')"
  by (simp add: per_network_steps_def rule_steps_def ERANGE_def ENAMETOOLONG_def)

lemma kernel_rules_append:
  "kernel_rules (xs @ ys) = foldl kernel_step (kernel_rules xs) ys"
  by (simp add: kernel_rules_def)

lemma kernel_added:
  "\<forall>m \<in> set ms. request_type m = Some RTM_NEWRULE \<Longrightarrow>
   foldl kernel_step S (map (\<lambda>m. Netlink m 0) ms) = S \<union> carried_rule ` set ms"
  by (induction ms arbitrary: S) (auto simp add: kernel_step_def)

lemma kernel_kept:
  "b \<in> S \<Longrightarrow>
   \<forall>ev \<in> set evs. (\<exists>n x. ev = Nametoindex n x)
      \<or> (\<exists>m r. ev = Netlink m r \<and> request_type m = Some RTM_DELRULE \<and> carried_rule m \<noteq> b) \<Longrightarrow>
   b \<in> foldl kernel_step S evs"
proof (induction evs arbitrary: S)
  case Nil
  then show ?case by simp
next
  case (Cons ev evs)
  have "b \<in> kernel_step S ev"
    using Cons(2) Cons(3) by (auto simp add: kernel_step_def RTM_DELRULE_def RTM_NEWRULE_def)
  then show ?case using Cons(1) Cons(3) by simp
qed

lemma lookup_trace:
  "getRouteTableForInterface d e interface w = (t, w0) \<Longrightarrow>
   trace w0 = trace w @ [Nametoindex interface (if_nametoindex e (trace w) interface)]"
  by (auto simp add: getRouteTableForInterface_def Let_def split: if_splits option.splits)

text \<open>
  C6, as the code has it. \<open>modifyNetworkPermission\<close> looks up the table and runs the
  additions for the new permission; when these return an error it is returned and
  nothing follows. Otherwise all six additions were acknowledged, and the table is
  looked up again and the deletions for the old permission are run from there, and
  their result is returned. Read back, the additions and the deletions are the six
  requests of the three per-network rules, for the new and for the old permission. When
  no rule that is deleted is one of the rules that are added, every rule added is still
  installed in the end, whatever the deletions returned.
\<close>

theorem modifyNetworkPermission_adds_before_removing:
  "let (t1, w0) = getRouteTableForInterface d e interface w;
       adds = per_network_steps d RTM_NEWRULE t1 netId' interface newPermission;
       (r1, w1) = (if t1 = 0 then (- ESRCH, w0) else run_steps e adds w0);
       (t2, w1') = getRouteTableForInterface d e interface w1;
       dels = per_network_steps d RTM_DELRULE t2 netId' interface oldPermission;
       (r2, w2) = (if t2 = 0 then (- ESRCH, w1') else run_steps e dels w1');
       result = modifyNetworkPermission d e netId' interface oldPermission newPermission w
   in result = (if r1 \<noteq> 0 then (r1, w1) else (r2, w2))
      \<and> (length interface + 1 \<le> IFNAMSIZ \<longrightarrow>
            map decode_rule (sends adds)
              = map Some (per_network_views d RTM_NEWRULE t1 netId' interface newPermission)
            \<and> map decode_rule (sends dels)
              = map Some (per_network_views d RTM_DELRULE t2 netId' interface oldPermission))
      \<and> (r1 = 0 \<longrightarrow> trace w1 = trace w0 @ map (\<lambda>m. Netlink m 0) (sends adds))
      \<and> (r1 = 0 \<and> carried_rule ` set (sends dels) \<inter> carried_rule ` set (sends adds) = {} \<longrightarrow>
            carried_rule ` set (sends adds) \<subseteq> kernel_rules (trace (snd result)))"
proof -
  obtain t1 w0 where g1: "getRouteTableForInterface d e interface w = (t1, w0)"
    by (cases "getRouteTableForInterface d e interface w") blast
  define adds where "adds = per_network_steps d RTM_NEWRULE t1 netId' interface newPermission"
  obtain r1 w1 where s1: "(if t1 = 0 then (- ESRCH, w0) else run_steps e adds w0) = (r1, w1)"
    by (cases "if t1 = 0 then (- ESRCH, w0) else run_steps e adds w0") blast
  obtain t2 w1' where g2: "getRouteTableForInterface d e interface w1 = (t2, w1')"
    by (cases "getRouteTableForInterface d e interface w1") blast
  define dels where "dels = per_network_steps d RTM_DELRULE t2 netId' interface oldPermission"
  obtain r2 w2 where s2: "(if t2 = 0 then (- ESRCH, w1') else run_steps e dels w1') = (r2, w2)"
    by (cases "if t2 = 0 then (- ESRCH, w1') else run_steps e dels w1'") blast
  define result where
    "result = modifyNetworkPermission d e netId' interface oldPermission newPermission w"
  have m1: "modifyPerNetworkRules d e netId' interface newPermission True False w = (r1, w1)"
    using g1 s1 unfolding adds_def
    by (auto simp add: modifyPerNetworkRules_steps split: if_splits)
  have m2: "modifyPerNetworkRules d e netId' interface oldPermission False False w1 = (r2, w2)"
    using g2 s2 unfolding dels_def
    by (auto simp add: modifyPerNetworkRules_steps split: if_splits)
  have a: "result = (if r1 \<noteq> 0 then (r1, w1) else (r2, w2))"
    using m1 m2 by (simp add: result_def modifyNetworkPermission_def)
  have b: "length interface + 1 \<le> IFNAMSIZ \<longrightarrow>
            map decode_rule (sends adds)
              = map Some (per_network_views d RTM_NEWRULE t1 netId' interface newPermission)
            \<and> map decode_rule (sends dels)
              = map Some (per_network_views d RTM_DELRULE t2 netId' interface oldPermission)"
    by (simp add: adds_def dels_def per_network_decoded)
  have esrch: "- ESRCH \<noteq> (0 :: int)" by (simp add: ESRCH_def)
  have c: "r1 = 0 \<longrightarrow> trace w1 = trace w0 @ map (\<lambda>m. Netlink m 0) (sends adds)"
  proof
    assume z: "r1 = 0"
    then have "t1 \<noteq> 0" using s1 esrch by (auto split: if_splits)
    then have "run_steps e adds w0 = (0, w1)" using s1 z by simp
    then show "trace w1 = trace w0 @ map (\<lambda>m. Netlink m 0) (sends adds)"
      by (rule run_steps_zero) (simp add: adds_def per_network_steps_refusals)
  qed
  have k: "r1 = 0 \<and> carried_rule ` set (sends dels) \<inter> carried_rule ` set (sends adds) = {} \<longrightarrow>
            carried_rule ` set (sends adds) \<subseteq> kernel_rules (trace (snd result))"
  proof (intro impI subsetI)
    fix b
    assume h: "r1 = 0 \<and> carried_rule ` set (sends dels) \<inter> carried_rule ` set (sends adds) = {}"
      and bm: "b \<in> carried_rule ` set (sends adds)"
    have tr1: "trace w1 = trace w0 @ map (\<lambda>m. Netlink m 0) (sends adds)" using c h by simp
    have "\<forall>m \<in> set (sends adds). request_type m = Some RTM_NEWRULE"
      by (auto simp add: adds_def dest: request_type_per_network)
    then have "kernel_rules (trace w1) = kernel_rules (trace w0) \<union> carried_rule ` set (sends adds)"
      unfolding tr1 kernel_rules_append by (rule kernel_added)
    then have in1: "b \<in> kernel_rules (trace w1)" using bm by simp
    have res: "snd result = w2" using a h by simp
    have tr1': "trace w1' = trace w1 @ [Nametoindex interface (if_nametoindex e (trace w1) interface)]"
      using g2 by (rule lookup_trace)
    have "\<exists>evs. trace w2 = trace w1' @ evs \<and>
            (\<forall>ev \<in> set evs. \<exists>m r'. ev = Netlink m r' \<and> m \<in> set (sends dels))"
    proof (cases "t2 = 0")
      case True
      then have "w2 = w1'" using s2 by simp
      then show ?thesis by simp
    next
      case False
      then have "run_steps e dels w1' = (r2, w2)" using s2 by simp
      then show ?thesis using run_steps_trace by blast
    qed
    then obtain evs where ev: "trace w2 = trace w1' @ evs"
        "\<forall>ev \<in> set evs. \<exists>m r'. ev = Netlink m r' \<and> m \<in> set (sends dels)"
      by blast
    have dis: "\<forall>m \<in> set (sends dels). carried_rule m \<noteq> b" using h bm by blast
    have ty: "\<forall>m \<in> set (sends dels). request_type m = Some RTM_DELRULE"
      by (auto simp add: dels_def dest: request_type_per_network)
    have all: "\<forall>ev \<in> set (Nametoindex interface (if_nametoindex e (trace w1) interface) # evs).
        (\<exists>n x. ev = Nametoindex n x)
        \<or> (\<exists>m r. ev = Netlink m r \<and> request_type m = Some RTM_DELRULE \<and> carried_rule m \<noteq> b)"
      using ev(2) dis ty by auto
    have "trace w2 = trace w1 @ (Nametoindex interface (if_nametoindex e (trace w1) interface) # evs)"
      using ev(1) tr1' by simp
    then have "kernel_rules (trace w2)
        = foldl kernel_step (kernel_rules (trace w1))
            (Nametoindex interface (if_nametoindex e (trace w1) interface) # evs)"
      by (simp only: kernel_rules_append)
    moreover have "b \<in> foldl kernel_step (kernel_rules (trace w1))
            (Nametoindex interface (if_nametoindex e (trace w1) interface) # evs)"
      using in1 all by (rule kernel_kept)
    ultimately show "b \<in> kernel_rules (trace (snd result))" using res by simp
  qed
  show ?thesis
    unfolding Let_def g1 prod.case
    unfolding adds_def [symmetric] s1 prod.case g2 dels_def [symmetric] s2 result_def [symmetric]
    by (intro conjI) (rule a, rule b, rule c, rule k)
qed

lemmas permission_eval_defs =

  modifyNetworkPermission_def modifyPerNetworkRules_def getRouteTableForInterface_def
  modifyIpRule_def AF_FAMILIES_def sendNetlinkRequest_def Let_def
  per_network_steps_def rule_steps_def
  decls0_def env0_def world0_def bitfield_intValue_def netlink_ret_def
  request_type_def netlink_datagram_Cons rule_iov_def netlink_requests_def netlink_results_def
  sizeof_nlmsghdr_def sizeof_nlmsgerr_def sizeof_fib_rule_hdr_def sizeof_rtattr_def
  sizeof_uint32_t_def RULE_PRIORITY_PER_NETWORK_INTERFACE_def
  RULE_PRIORITY_PER_NETWORK_NORMAL_def RULE_PRIORITY_PER_NETWORK_EXPLICIT_def
  RTM_NEWRULE_def RTM_DELRULE_def INVALID_UID_def IFNAMSIZ_def
  kernel_rules_def kernel_step_def carried_rule_def wire_def
  RTA_SPACE_def RTA_LENGTH_def RTA_ALIGN_def RTA_ALIGNTO_def

lemmas decode_eval_defs =

  decode_rule_def wire_def netlink_datagram_Cons rule_iov_def Let_def
  sizeof_nlmsghdr_def sizeof_fib_rule_hdr_def sizeof_rtattr_def sizeof_uint32_t_def
  FRATTR_PRIORITY_def FRATTR_TABLE_def FRATTR_FWMARK_def FRATTR_FWMASK_def
  FRATTR_UID_START_def FRATTR_UID_END_def U16_RTA_LENGTH_def RTA_SPACE_def RTA_LENGTH_def
  RTA_ALIGN_def RTA_ALIGNTO_def NETLINK_CREATE_REQUEST_FLAGS_def NETLINK_REQUEST_FLAGS_def
  NLM_F_REQUEST_def NLM_F_ACK_def NLM_F_CREATE_def NLM_F_EXCL_def
  FRA_PRIORITY_def FRA_TABLE_def FRA_FWMARK_def FRA_FWMASK_def FRA_OIFNAME_def
  FR_ACT_TO_TBL_def FR_ACT_UNREACHABLE_def AF_INET_def AF_INET6_def INVALID_UID_def
  RTM_NEWRULE_def RTM_DELRULE_def

theorem modifyNetworkPermission_adds_before_removing_witness:
  "fst (modifyNetworkPermission decls0 env_delete_fails 5 ''wlan0'' 0 1 world0) = - 2
   \<and> netlink_results
        (trace (snd (modifyNetworkPermission decls0 env_delete_fails 5 ''wlan0'' 0 1 world0)))
      = [0, 0, 0, 0, 0, 0, - 2]
   \<and> carried_rule ` set (sends (per_network_steps decls0 RTM_DELRULE 1005 5 ''wlan0'' 0))
      \<inter> carried_rule ` set (sends (per_network_steps decls0 RTM_NEWRULE 1005 5 ''wlan0'' 1)) = {}
   \<and> carried_rule ` set (sends (per_network_steps decls0 RTM_NEWRULE 1005 5 ''wlan0'' 1))
      \<subseteq> kernel_rules
          (trace (snd (modifyNetworkPermission decls0 env_delete_fails 5 ''wlan0'' 0 1 world0)))
   \<and> map decode_rule (sends (per_network_steps decls0 RTM_NEWRULE 1005 5 ''wlan0'' 1))
      = [Some \<lparr>rq_type = 32, rq_flags = 0x605, rq_family = 2, rq_action = 1,
               rq_attrs = [(\<lparr>rta_len = 8, rta_type = 6\<rparr>, Some \<lparr>iov_base = U32 14000, iov_len = 4\<rparr>),
                           (\<lparr>rta_len = 8, rta_type = 15\<rparr>, Some \<lparr>iov_base = U32 1005, iov_len = 4\<rparr>),
                           (\<lparr>rta_len = 8, rta_type = 10\<rparr>, Some \<lparr>iov_base = U32 0x40000, iov_len = 4\<rparr>),
                           (\<lparr>rta_len = 8, rta_type = 16\<rparr>, Some \<lparr>iov_base = U32 0x40000, iov_len = 4\<rparr>),
                           (\<lparr>rta_len = 10, rta_type = 17\<rparr>,
                            Some \<lparr>iov_base = CString ''wlan0'', iov_len = 6\<rparr>)]\<rparr>,
         Some \<lparr>rq_type = 32, rq_flags = 0x605, rq_family = 10, rq_action = 1,
               rq_attrs = [(\<lparr>rta_len = 8, rta_type = 6\<rparr>, Some \<lparr>iov_base = U32 14000, iov_len = 4\<rparr>),
                           (\<lparr>rta_len = 8, rta_type = 15\<rparr>, Some \<lparr>iov_base = U32 1005, iov_len = 4\<rparr>),
                           (\<lparr>rta_len = 8, rta_type = 10\<rparr>, Some \<lparr>iov_base = U32 0x40000, iov_len = 4\<rparr>),
                           (\<lparr>rta_len = 8, rta_type = 16\<rparr>, Some \<lparr>iov_base = U32 0x40000, iov_len = 4\<rparr>),
                           (\<lparr>rta_len = 10, rta_type = 17\<rparr>,
                            Some \<lparr>iov_base = CString ''wlan0'', iov_len = 6\<rparr>)]\<rparr>,
         Some \<lparr>rq_type = 32, rq_flags = 0x605, rq_family = 2, rq_action = 1,
               rq_attrs = [(\<lparr>rta_len = 8, rta_type = 6\<rparr>, Some \<lparr>iov_base = U32 17000, iov_len = 4\<rparr>),
                           (\<lparr>rta_len = 8, rta_type = 15\<rparr>, Some \<lparr>iov_base = U32 1005, iov_len = 4\<rparr>),
                           (\<lparr>rta_len = 8, rta_type = 10\<rparr>, Some \<lparr>iov_base = U32 0x40005, iov_len = 4\<rparr>),
                           (\<lparr>rta_len = 8, rta_type = 16\<rparr>, Some \<lparr>iov_base = U32 0x4ffff, iov_len = 4\<rparr>)]\<rparr>,
         Some \<lparr>rq_type = 32, rq_flags = 0x605, rq_family = 10, rq_action = 1,
               rq_attrs = [(\<lparr>rta_len = 8, rta_type = 6\<rparr>, Some \<lparr>iov_base = U32 17000, iov_len = 4\<rparr>),
                           (\<lparr>rta_len = 8, rta_type = 15\<rparr>, Some \<lparr>iov_base = U32 1005, iov_len = 4\<rparr>),
                           (\<lparr>rta_len = 8, rta_type = 10\<rparr>, Some \<lparr>iov_base = U32 0x40005, iov_len = 4\<rparr>),
                           (\<lparr>rta_len = 8, rta_type = 16\<rparr>, Some \<lparr>iov_base = U32 0x4ffff, iov_len = 4\<rparr>)]\<rparr>,
         Some \<lparr>rq_type = 32, rq_flags = 0x605, rq_family = 2, rq_action = 1,
               rq_attrs = [(\<lparr>rta_len = 8, rta_type = 6\<rparr>, Some \<lparr>iov_base = U32 13000, iov_len = 4\<rparr>),
                           (\<lparr>rta_len = 8, rta_type = 15\<rparr>, Some \<lparr>iov_base = U32 1005, iov_len = 4\<rparr>),
                           (\<lparr>rta_len = 8, rta_type = 10\<rparr>, Some \<lparr>iov_base = U32 0x50005, iov_len = 4\<rparr>),
                           (\<lparr>rta_len = 8, rta_type = 16\<rparr>, Some \<lparr>iov_base = U32 0x5ffff, iov_len = 4\<rparr>)]\<rparr>,
         Some \<lparr>rq_type = 32, rq_flags = 0x605, rq_family = 10, rq_action = 1,
               rq_attrs = [(\<lparr>rta_len = 8, rta_type = 6\<rparr>, Some \<lparr>iov_base = U32 13000, iov_len = 4\<rparr>),
                           (\<lparr>rta_len = 8, rta_type = 15\<rparr>, Some \<lparr>iov_base = U32 1005, iov_len = 4\<rparr>),
                           (\<lparr>rta_len = 8, rta_type = 10\<rparr>, Some \<lparr>iov_base = U32 0x50005, iov_len = 4\<rparr>),
                           (\<lparr>rta_len = 8, rta_type = 16\<rparr>, Some \<lparr>iov_base = U32 0x5ffff, iov_len = 4\<rparr>)]\<rparr>]"
  using modifyNetworkPermission_adds_before_removing
          [of decls0 env_delete_fails "''wlan0''" world0 5 1 0]
  by (simp add: permission_eval_defs decode_eval_defs env_delete_fails_def six_Suc)

text \<open>
  C6 as stated fails when the old permission is the new one: the deletions then remove
  the rules that were just added. Here the six additions are acknowledged, the first
  two deletions are acknowledged and the third is refused: the error is returned, and
  the first rule added is no longer installed.
\<close>

theorem modifyNetworkPermission_adds_before_removing_counterexample:
  "fst (modifyPerNetworkRules decls0 env_third_delete_fails 5 ''wlan0'' 1 True False world0) = 0
   \<and> fst (modifyNetworkPermission decls0 env_third_delete_fails 5 ''wlan0'' 1 1 world0) = - 2
   \<and> netlink_results
        (trace (snd (modifyNetworkPermission decls0 env_third_delete_fails 5 ''wlan0'' 1 1 world0)))
      = [0, 0, 0, 0, 0, 0, 0, 0, - 2]
   \<and> carried_rule (hd (sends (per_network_steps decls0 RTM_NEWRULE 1005 5 ''wlan0'' 1)))
      \<in> kernel_rules
          (trace (snd (modifyPerNetworkRules decls0 env_third_delete_fails 5 ''wlan0'' 1 True False
                         world0)))
   \<and> carried_rule (hd (sends (per_network_steps decls0 RTM_NEWRULE 1005 5 ''wlan0'' 1)))
      \<notin> kernel_rules
          (trace (snd (modifyNetworkPermission decls0 env_third_delete_fails 5 ''wlan0'' 1 1 world0)))"
  by (simp add: permission_eval_defs env_third_delete_fails_def)

section \<open>Flushing the routes of an interface\<close>

lemma snprintf_u_1005: "snprintf_u 11 1005 = ''1005''"
  by (simp add: snprintf_u_def utoa.simps digit_char_def)

lemma getRouteTableForInterface_entry:
  "interfaceToIndex (snd (getRouteTableForInterface d e interface w)) interface
     = (if if_nametoindex e (trace w) interface \<noteq> 0
        then Some (if_nametoindex e (trace w) interface)
        else interfaceToIndex w interface)"
  by (simp add: getRouteTableForInterface_def Let_def split: option.splits)

text \<open>
  C8, as the code has it. \<open>flushRoutes\<close> looks the table up; the lookup never removes
  an entry of the map. If the table is 0 it returns \<open>-ESRCH\<close> in the state the lookup
  left and runs no command. Otherwise it first erases the entry of the interface from
  the map, and then runs the external command for \<open>-4\<close> and, if that returned 0, for
  \<open>-6\<close>, returning \<open>-EREMOTEIO\<close> at the first that does not return 0: the entry is
  absent from the state in which each command runs, and from the final state whatever
  the commands return.
\<close>

theorem flushRoutes_forgets_before_flushing:
  "let (t, w0) = getRouteTableForInterface d e interface w;
       w1 = w0\<lparr>interfaceToIndex := (interfaceToIndex w0)(interface := None)\<rparr>;
       tableString = snprintf_u (UINT32_STRLEN d) t;
       r4 = android_fork_execvp e (trace w1) (flush_argv d ''-4'' tableString);
       w4 = w1\<lparr>trace := trace w1 @ [ForkExecvp (flush_argv d ''-4'' tableString) r4]\<rparr>;
       r6 = android_fork_execvp e (trace w4) (flush_argv d ''-6'' tableString);
       w6 = w4\<lparr>trace := trace w4 @ [ForkExecvp (flush_argv d ''-6'' tableString) r6]\<rparr>
   in flushRoutes d e interface w =
        (if t = 0 then (- ESRCH, w0)
         else if r4 \<noteq> 0 then (- EREMOTEIO, w4)
         else if r6 \<noteq> 0 then (- EREMOTEIO, w6)
         else (0, w6))
      \<and> interfaceToIndex w0 interface
          = (if if_nametoindex e (trace w) interface \<noteq> 0
             then Some (if_nametoindex e (trace w) interface)
             else interfaceToIndex w interface)
      \<and> interfaceToIndex w1 interface = None
      \<and> interfaceToIndex w4 = interfaceToIndex w1
      \<and> interfaceToIndex w6 = interfaceToIndex w1"
proof -
  obtain t w0 where g: "getRouteTableForInterface d e interface w = (t, w0)"
    by (cases "getRouteTableForInterface d e interface w") blast
  have "interfaceToIndex w0 interface
          = (if if_nametoindex e (trace w) interface \<noteq> 0
             then Some (if_nametoindex e (trace w) interface)
             else interfaceToIndex w interface)"
    using getRouteTableForInterface_entry [of d e interface w] g by simp
  then show ?thesis
    using g by (simp add: flushRoutes_def IP_VERSIONS_def Let_def)
qed

theorem flushRoutes_forgets_before_flushing_witness:
  "flushRoutes decls0 env0 ''wlan0'' world0
     = (0, \<lparr>interfaceToIndex = Map.empty,
            trace = [Nametoindex ''wlan0'' 5,
                     ForkExecvp (flush_argv decls0 ''-4'' ''1005'') 0,
                     ForkExecvp (flush_argv decls0 ''-6'' ''1005'') 0]\<rparr>)
   \<and> flushRoutes decls0 env_gone ''wlan0'' world0
     = (- ESRCH, \<lparr>interfaceToIndex = Map.empty, trace = [Nametoindex ''wlan0'' 0]\<rparr>)"
  using flushRoutes_forgets_before_flushing [of decls0 env0 "''wlan0''" world0]
        flushRoutes_forgets_before_flushing [of decls0 env_gone "''wlan0''" world0]
  by (simp add: getRouteTableForInterface_def Let_def decls0_def env0_def env_gone_def world0_def
      snprintf_u_1005)

text \<open>
  C8 as stated fails: with \<open>wlan0\<close> gone and its index still in the map, a flush whose
  first command fails returns \<open>-EREMOTEIO\<close> with the entry already forgotten; the
  command for \<open>-6\<close> never ran.
\<close>

theorem flushRoutes_forgets_before_flushing_counterexample:
  "interfaceToIndex world_cached ''wlan0'' = Some 5
   \<and> flushRoutes decls0 env_flush_fails ''wlan0'' world_cached
     = (- EREMOTEIO,
        \<lparr>interfaceToIndex = Map.empty,
         trace = [Nametoindex ''wlan0'' 0,
                  ForkExecvp [''/system/bin/ip'', ''-4'', ''routeflush'', ''table'', ''1005''] 1]\<rparr>)"
  by (simp add: flushRoutes_def getRouteTableForInterface_def Let_def decls0_def env0_def
      env_gone_def env_flush_fails_def world_cached_def snprintf_u_1005 IP_VERSIONS_def
      flush_argv_def)

section \<open>Adding and removing routes\<close>

lemma modifyRoute_resolved:
  assumes "resolve_table d e tableType interface w = Some (table, w0)" and "table \<noteq> 0"
      and "modifyIpRoute e action table interface destination nexthop w0 = (r1, w1)"
      and "modifyIpRoute e action RT_TABLE_MAIN interface destination None w1 = (r2, w2)"
  shows "modifyRoute d e interface destination nexthop action tableType uid w =
           Some (if r1 \<noteq> 0 \<and> \<not> (action = RTM_NEWROUTE \<and> r1 = - EEXIST \<and>
                                  (tableType = LEGACY \<or> tableType = PRIVILEGED_LEGACY))
                 then (r1, w1)
                 else if nexthop = None
                 then (if r2 \<noteq> 0 \<and> \<not> (action = RTM_NEWROUTE \<and> r2 = - EEXIST) then r2 else 0, w2)
                 else (0, w1))"
proof (cases "action = RTM_NEWROUTE")
  case True
  with assms show ?thesis by (simp add: modifyRoute_def)
next
  case False
  with assms show ?thesis by (simp add: modifyRoute_def)
qed

text \<open>
  C4. Let the table be resolved and not 0, let \<open>r1\<close> be what the install into that
  table returns and \<open>r2\<close> what the install into the main table returns after it. An
  error \<open>r1\<close> is returned as it is, with nothing done after it, unless the action is
  an add, the error is \<open>-EEXIST\<close> and the table type is \<open>LEGACY\<close> or
  \<open>PRIVILEGED_LEGACY\<close>; this covers \<open>-EEXIST\<close> on an \<open>INTERFACE\<close> add and on every
  remove. In that one case \<open>modifyRoute\<close> goes on exactly as it does after \<open>r1 = 0\<close>:
  with a nexthop it returns 0, without one it returns what the main-table install
  yields, 0 for \<open>-EEXIST\<close> on an add and the error otherwise. So an add to a legacy
  table whose installs each return 0 or \<open>-EEXIST\<close> returns 0, while \<open>addRoute\<close> on
  an \<open>INTERFACE\<close> table and \<open>removeRoute\<close> on any table return every error of the
  first install as it is.
\<close>

theorem modifyRoute_tolerates_exists:
  assumes "resolve_table d e tableType interface w = Some (table, w0)" and "table \<noteq> 0"
      and "modifyIpRoute e action table interface destination nexthop w0 = (r1, w1)"
      and "modifyIpRoute e action RT_TABLE_MAIN interface destination None w1 = (r2, w2)"
  shows "(r1 \<noteq> 0 \<and> \<not> (action = RTM_NEWROUTE \<and> r1 = - EEXIST \<and>
                         (tableType = LEGACY \<or> tableType = PRIVILEGED_LEGACY))
            \<longrightarrow> modifyRoute d e interface destination nexthop action tableType uid w
                  = Some (r1, w1))
         \<and> (r1 = 0 \<or> (action = RTM_NEWROUTE \<and> r1 = - EEXIST \<and>
                        (tableType = LEGACY \<or> tableType = PRIVILEGED_LEGACY))
            \<longrightarrow> modifyRoute d e interface destination nexthop action tableType uid w
                  = Some (if nexthop = None
                          then (if r2 \<noteq> 0 \<and> \<not> (action = RTM_NEWROUTE \<and> r2 = - EEXIST)
                                then r2 else 0, w2)
                          else (0, w1)))
         \<and> (action = RTM_NEWROUTE \<and> (tableType = LEGACY \<or> tableType = PRIVILEGED_LEGACY)
              \<and> (r1 = 0 \<or> r1 = - EEXIST) \<and> (nexthop = None \<longrightarrow> r2 = 0 \<or> r2 = - EEXIST)
            \<longrightarrow> (\<exists>w'. modifyRoute d e interface destination nexthop action tableType uid w
                        = Some (0, w')))
         \<and> (action = RTM_NEWROUTE \<and> tableType = INTERFACE \<and> r1 \<noteq> 0
            \<longrightarrow> addRoute d e interface destination nexthop tableType uid w = Some (r1, w1))
         \<and> (action = RTM_DELROUTE \<and> r1 \<noteq> 0
            \<longrightarrow> removeRoute d e interface destination nexthop tableType uid w = Some (r1, w1))"
  using modifyRoute_resolved [OF assms, of uid]
  by (auto simp add: EEXIST_def addRoute_def removeRoute_def RTM_NEWROUTE_def RTM_DELROUTE_def)

theorem modifyRoute_tolerates_exists_witness:
  "resolve_table decls0 env_exclusive LEGACY (Some ''wlan0'') world0 = Some (98, world0)
   \<and> (98 :: uint32_t) \<noteq> 0
   \<and> fst (the (addRoute decls0 env_exclusive (Some ''wlan0'') (Some ''10.0.0.0/24'') None LEGACY 0
                 world0)) = 0
   \<and> fst (the (addRoute decls0 env_exclusive (Some ''wlan0'') (Some ''10.0.0.0/24'') None LEGACY 0
                 (snd (the (addRoute decls0 env_exclusive (Some ''wlan0'') (Some ''10.0.0.0/24'')
                              None LEGACY 0 world0))))) = 0
   \<and> netlink_results (trace (snd (the
         (addRoute decls0 env_exclusive (Some ''wlan0'') (Some ''10.0.0.0/24'') None LEGACY 0
            (snd (the (addRoute decls0 env_exclusive (Some ''wlan0'') (Some ''10.0.0.0/24'')
                         None LEGACY 0 world0)))))))
       = [0, 0, - EEXIST, - EEXIST]
   \<and> fst (the (addRoute decls0 env_exclusive (Some ''wlan0'') (Some ''10.0.0.0/24'') None INTERFACE 0
                 (snd (the (addRoute decls0 env_exclusive (Some ''wlan0'') (Some ''10.0.0.0/24'')
                              None INTERFACE 0 world0))))) = - EEXIST"
  using modifyRoute_tolerates_exists [of decls0 env_exclusive LEGACY "Some ''wlan0''" world0 98 world0
      RTM_NEWROUTE "Some ''10.0.0.0/24''" None
      "fst (modifyIpRoute env_exclusive RTM_NEWROUTE 98 (Some ''wlan0'') (Some ''10.0.0.0/24'') None world0)"
      "snd (modifyIpRoute env_exclusive RTM_NEWROUTE 98 (Some ''wlan0'') (Some ''10.0.0.0/24'') None world0)"
      "fst (modifyIpRoute env_exclusive RTM_NEWROUTE RT_TABLE_MAIN (Some ''wlan0'') (Some ''10.0.0.0/24'') None
         (snd (modifyIpRoute env_exclusive RTM_NEWROUTE 98 (Some ''wlan0'') (Some ''10.0.0.0/24'') None world0)))"
      "snd (modifyIpRoute env_exclusive RTM_NEWROUTE RT_TABLE_MAIN (Some ''wlan0'') (Some ''10.0.0.0/24'') None
         (snd (modifyIpRoute env_exclusive RTM_NEWROUTE 98 (Some ''wlan0'') (Some ''10.0.0.0/24'') None world0)))"
      0]
  by (simp add: addRoute_def modifyRoute_def resolve_table_def modifyIpRoute_def
      getRouteTableForInterface_def sendNetlinkRequest_def netlink_datagram_Cons route_iov_def
      netlink_ret_def netlink_results_def Let_def
      decls0_def env0_def env_exclusive_def world0_def ROUTE_TABLE_LEGACY_def
      sizeof_nlmsghdr_def sizeof_nlmsgerr_def sizeof_in6_addr_def RT_TABLE_MAIN_def EEXIST_def
      RTM_NEWROUTE_def)





end
